theory Spec2Isabelle
  imports Complex_Main "HOL-Library.Word"
begin

section \<open>The tenant runtime core of \<^verbatim>\<open>edb/server/tenant.py\<close>\<close>

text \<open>
  The theory embeds the methods of class \<^verbatim>\<open>Tenant\<close> that the specification's claims are
  about. A method becomes a function on an explicit \<open>tenant\<close> record. An \<^verbatim>\<open>await\<close> is a
  suspension point: the model takes the outcome of the awaited operation (an exception or
  a value) and a function \<open>tenant \<Rightarrow> tenant\<close> that says what the other tasks did to the
  tenant while this one was suspended. Exceptions are values of the type \<open>exn\<close>, and a
  method that can raise returns \<open>exn + 'a\<close>. Calls to \<^verbatim>\<open>logger\<close> and \<^verbatim>\<open>metrics\<close> change no
  tenant state and no control flow and are left out.
\<close>

subsection \<open>Exceptions\<close>

text \<open>
  The SQLSTATE constants of \<^verbatim>\<open>pgcon.errors\<close> that the tenant tests with \<^verbatim>\<open>code_is\<close>; every other
  code is \<open>OTHER_CODE\<close> with its text.
\<close>

datatype pg_code =
    ERROR_FEATURE_NOT_SUPPORTED
  | ERROR_CANNOT_CONNECT_NOW
  | ERROR_READ_ONLY_SQL_TRANSACTION
  | ERROR_INVALID_CATALOG_NAME
  | OTHER_CODE string

text \<open>
  The exception classes the methods raise or catch. \<open>OSError\<close> stands for \<^verbatim>\<open>OSError\<close> and its
  subclasses other than the two listed on their own: \<^verbatim>\<open>ConnectionError\<close> and
  \<^verbatim>\<open>FileNotFoundError\<close> are subclasses of \<^verbatim>\<open>OSError\<close> in Python.
\<close>

datatype exn =
    OSError string
  | ConnectionError string
  | FileNotFoundError string
  | BackendError pg_code
  | BackendUnavailableError string
  | ExecutionError string
  | AuthenticationError string
  | RuntimeError string
  | AssertionError
  | TypeError string
  | ValueError string
  | StructError string
  | OtherException string

fun is_OSError :: "exn \<Rightarrow> bool" where
  "is_OSError (OSError _) = True"
| "is_OSError (ConnectionError _) = True"
| "is_OSError (FileNotFoundError _) = True"
| "is_OSError _ = False"

fun is_BackendError :: "exn \<Rightarrow> bool" where
  "is_BackendError (BackendError _) = True"
| "is_BackendError _ = False"


fun code_is :: "exn \<Rightarrow> pg_code \<Rightarrow> bool" where
  "code_is (BackendError c) c' = (c = c')"
| "code_is _ _ = False"

subsection \<open>Constants of \<^verbatim>\<open>edb.server.defines\<close>\<close>

text \<open>
  The module \<^verbatim>\<open>defines\<close> is not among the sources, so the constants the tenant reads are
  fields of a parameter.
\<close>

record srv_defines =
  EDGEDB_TEMPLATE_DB :: string
  EDGEDB_SYSTEM_DB :: string
  EDGEDB_SUPERUSER_DB :: string
  SYSTEM_DB_RECONNECT_INTERVAL :: real

subsection \<open>Backend connections and the pool\<close>

text \<open>
  A \<^verbatim>\<open>PGConnection\<close>, with the attributes the tenant reads and the marks its method calls
  leave: \<open>tenant_set\<close> after \<^verbatim>\<open>set_tenant\<close>, \<open>terminated\<close> after \<^verbatim>\<open>terminate\<close>, \<open>aborted\<close> after
  \<^verbatim>\<open>abort\<close>, \<open>system_db\<close> after \<^verbatim>\<open>mark_as_system_db\<close>, \<open>listening\<close> after
  \<^verbatim>\<open>listen_for_sysevent\<close>.
\<close>

record pgconn =
  conn_dbname :: string
  healthy :: bool
  stmt_cache_size :: "nat option"
  tenant_set :: bool
  terminated :: bool
  aborted :: bool
  system_db :: bool
  listening :: bool

text \<open>
  The pool (\<^verbatim>\<open>connpool.Pool\<close>) is an external collaborator. The tenant reads its
  \<^verbatim>\<open>max_capacity\<close> and calls its methods; \<open>pool_calls\<close> records those calls in order.
\<close>

datatype pool_call =
    Acquire string
  | Release string pgconn bool
  | PruneInactive string
  | PruneAll

record pool =
  max_capacity :: int
  pool_calls :: "pool_call list"

definition pool_log :: "pool_call \<Rightarrow> pool \<Rightarrow> pool" where
  "pool_log c p = p\<lparr>pool_calls := pool_calls p @ [c]\<rparr>"

subsection \<open>The database index\<close>

text \<open>
  Modelled from the spec: \<^verbatim>\<open>dbview.DatabaseIndex\<close> is not among the sources. Following
  sections 3 and 4.4 of the specification, the index maps a database name to its entry;
  \<open>has_db\<close> holds iff an entry exists, \<open>register_db\<close> creates or replaces an entry,
  \<open>unregister_db\<close> drops it, and \<open>count_connections\<close> is the number of live views of the entry.
  The opaque values (pickles, configs, caches) are byte strings.
\<close>

type_synonym bytes = "8 word list"

record db_entry =
  user_schema_pickle :: "bytes option"
  db_config :: "bytes option"
  reflection_cache :: "bytes option"
  backend_ids :: "bytes option"
  extensions :: "string set"
  ext_config_settings :: "bytes option"
  views :: nat

type_synonym DatabaseIndex = "string \<rightharpoonup> db_entry"

definition has_db :: "DatabaseIndex \<Rightarrow> string \<Rightarrow> bool" where
  "has_db idx dbname = (idx dbname \<noteq> None)"

definition register_db ::
  "DatabaseIndex \<Rightarrow> string \<Rightarrow> bytes option \<Rightarrow> bytes option \<Rightarrow> bytes option \<Rightarrow>
     bytes option \<Rightarrow> string set \<Rightarrow> bytes option \<Rightarrow> DatabaseIndex" where
  "register_db idx dbname usp cfg rc bids exts ecs =
     idx(dbname \<mapsto> \<lparr>user_schema_pickle = usp, db_config = cfg, reflection_cache = rc,
       backend_ids = bids, extensions = exts, ext_config_settings = ecs,
       views = (case idx dbname of None \<Rightarrow> 0 | Some e \<Rightarrow> views e)\<rparr>)"

definition unregister_db :: "DatabaseIndex \<Rightarrow> string \<Rightarrow> DatabaseIndex" where
  "unregister_db idx dbname = idx(dbname := None)"


subsection \<open>The tenant\<close>

text \<open>
  Modelled from the spec: the enumeration \<^verbatim>\<open>srvargs.ReadinessState\<close> is declared outside the
  sources. Its four members are the ones \<^verbatim>\<open>tenant.py\<close> names; their string values follow
  section 4.8 and scenario 3 of the specification and the log messages of
  \<^verbatim>\<open>reload_readiness_state\<close>.
\<close>

datatype ReadinessState = Default | ReadOnly | Offline | Blocked

type_synonym ProtocolVersion = "nat \<times> nat"

datatype ha_call = OnPgconMade bool | OnPgconBroken bool | OnPgconLost

datatype sysevent = Sysevent string string

text \<open>
  The attributes of \<^verbatim>\<open>Tenant\<close> that the modelled methods read or write. The two events are
  their flags. \<open>backend_adaptive_ha\<close> is \<open>None\<close> when adaptive HA is off and otherwise the calls
  made on it; \<open>signalled\<close> lists the sysevents sent on the system connection.
  \<open>has_create_database\<close> is the field of the backend runtime parameters and
  \<open>server_stmt_cache_size\<close> the server's \<^verbatim>\<open>stmt_cache_size\<close>.
\<close>

record tenant =
  initing :: bool
  running :: bool
  accepting_connections :: bool
  accept_new_tasks :: bool
  sys_pgcon :: "pgconn option"
  sys_pgcon_ready_evt :: bool
  sys_pgcon_reconnect_evt :: bool
  pg_pool :: pool
  pg_unavailable_msg :: "string option"
  ha_master_serial :: int
  backend_adaptive_ha :: "ha_call list option"
  readiness_state_file :: "string option"
  readiness :: ReadinessState
  readiness_reason :: string
  block_new_connections :: "string set"
  report_config_data :: "ProtocolVersion \<rightharpoonup> bytes"
  dbindex :: "DatabaseIndex option"
  jwt_sub_allowlist :: "string set option"
  jwt_revocation_list :: "string set option"
  has_create_database :: bool
  server_stmt_cache_size :: "nat option"
  signalled :: "sysevent list"

text \<open>
  The state \<^verbatim>\<open>__init__\<close> leaves: \<^verbatim>\<open>_initing = True\<close>, \<^verbatim>\<open>_running = False\<close>, serial 0, readiness
  \<^verbatim>\<open>Default\<close>, a pool of capacity \<^verbatim>\<open>max_backend_connections - 1\<close>, no unavailable message, no
  blocked database, no reported config, no database index and no JWT lists. The events are
  created unset by \<^verbatim>\<open>init_sys_pgcon\<close>. The last two arguments are what the cluster and the
  server report.
\<close>

definition tenant_init :: "int \<Rightarrow> bool \<Rightarrow> string option \<Rightarrow> bool \<Rightarrow> nat option \<Rightarrow> tenant" where
  "tenant_init max_backend_connections adaptive_ha state_file create_db cache_size =
     \<lparr>initing = True, running = False, accepting_connections = False,
      accept_new_tasks = False, sys_pgcon = None, sys_pgcon_ready_evt = False,
      sys_pgcon_reconnect_evt = False,
      pg_pool = \<lparr>max_capacity = max_backend_connections - 1, pool_calls = []\<rparr>,
      pg_unavailable_msg = None, ha_master_serial = 0,
      backend_adaptive_ha = (if adaptive_ha then Some [] else None),
      readiness_state_file = state_file, readiness = Default, readiness_reason = [],
      block_new_connections = {}, report_config_data = Map.empty, dbindex = None,
      jwt_sub_allowlist = None, jwt_revocation_list = None,
      has_create_database = create_db, server_stmt_cache_size = cache_size,
      signalled = []\<rparr>"

subsection \<open>\<^verbatim>\<open>set_pg_unavailable_msg\<close> and \<^verbatim>\<open>is_database_connectable\<close>\<close>

text \<open>
  \<^verbatim>\<open>
  def set_pg_unavailable_msg(self, msg: str | None) -> None:
      if msg is None or self._pg_unavailable_msg is None:
          self._pg_unavailable_msg = msg
  \<close>
\<close>

definition set_pg_unavailable_msg :: "tenant \<Rightarrow> string option \<Rightarrow> tenant" where
  "set_pg_unavailable_msg t msg =
     (if msg = None \<or> pg_unavailable_msg t = None then t\<lparr>pg_unavailable_msg := msg\<rparr> else t)"

text \<open>
  \<^verbatim>\<open>
  def is_database_connectable(self, dbname: str) -> bool:
      return (
          dbname != defines.EDGEDB_TEMPLATE_DB
          and dbname not in self._block_new_connections
      )
  \<close>
\<close>

definition is_database_connectable :: "srv_defines \<Rightarrow> tenant \<Rightarrow> string \<Rightarrow> bool" where
  "is_database_connectable defs t dbname =
     (dbname \<noteq> EDGEDB_TEMPLATE_DB defs \<and> dbname \<notin> block_new_connections t)"

subsection \<open>Readiness\<close>

text \<open>
  \<^verbatim>\<open>
  def is_online(self) -> bool:
      return self._readiness is not srvargs.ReadinessState.Offline
  \<close>
\<close>

definition is_online :: "tenant \<Rightarrow> bool" where
  "is_online t = (readiness t \<noteq> Offline)"

text \<open>
  A \<open>string\<close> is a list of characters with code points below 256. Python's
  \<^verbatim>\<open>str.strip()\<close> and \<^verbatim>\<open>str.partition(sep)\<close> for a one-character separator: the characters
  \<^verbatim>\<open>strip\<close> removes are those for which \<^verbatim>\<open>str.isspace\<close> is true, which below 256 are the code
  points 9 to 13, 28 to 32, 133 and 160.
\<close>

definition py_isspace :: "char \<Rightarrow> bool" where
  "py_isspace c = (of_char c \<in> {9, 10, 11, 12, 13, 28, 29, 30, 31, 32, 133, 160 :: nat})"

definition strip :: "string \<Rightarrow> string" where
  "strip s = rev (dropWhile py_isspace (rev (dropWhile py_isspace s)))"

definition str_partition :: "char \<Rightarrow> string \<Rightarrow> string \<times> string \<times> string" where
  "str_partition sep s =
     (case dropWhile (\<lambda>c. c \<noteq> sep) s of
        [] \<Rightarrow> (s, [], [])
      | _ # after \<Rightarrow> (takeWhile (\<lambda>c. c \<noteq> sep) s, [sep], after))"

text \<open>
  \<open>quoted\<close> puts a text between single quotes, as Python's messages do with a type name.
  \<open>py_repr\<close> is \<^verbatim>\<open>repr\<close> of a string. The quote is the single quote, unless the string has a
  single quote and no double quote in it. A backslash and the quote are escaped with a
  backslash; tab, newline and carriage return are written \<^verbatim>\<open>\t\<close>, \<^verbatim>\<open>\n\<close>, \<^verbatim>\<open>\r\<close>; every other
  character that is not printable is written \<^verbatim>\<open>\xhh\<close> with two lower-case hex digits. Below
  256 the printable characters are the code points 32 to 126 and 161 to 255 without 173.
\<close>

definition quoted :: "string \<Rightarrow> string" where
  "quoted s = [CHR 0x27] @ s @ [CHR 0x27]"

definition hex_digit :: "nat \<Rightarrow> char" where
  "hex_digit n = (if n < 10 then char_of (48 + n) else char_of (87 + n))"

definition py_printable :: "char \<Rightarrow> bool" where
  "py_printable c =
     (let n = (of_char c :: nat) in (32 \<le> n \<and> n < 127) \<or> (161 \<le> n \<and> n \<noteq> 173))"

definition repr_char :: "char \<Rightarrow> char \<Rightarrow> string" where
  "repr_char quote c =
     (if c = quote \<or> c = CHR 0x5C then [CHR 0x5C, c]
      else if c = CHR 0x09 then [CHR 0x5C, CHR ''t'']
      else if c = CHR 0x0A then [CHR 0x5C, CHR ''n'']
      else if c = CHR 0x0D then [CHR 0x5C, CHR ''r'']
      else if \<not> py_printable c then
        [CHR 0x5C, CHR ''x'', hex_digit (of_char c div 16), hex_digit (of_char c mod 16)]
      else [c])"

definition py_repr :: "string \<Rightarrow> string" where
  "py_repr s =
     (let quote = (if CHR 0x27 \<in> set s \<and> CHR 0x22 \<notin> set s then CHR 0x22 else CHR 0x27)
      in [quote] @ concat (map (repr_char quote) s) @ [quote])"

text \<open>
  What opening and reading the readiness state file gives: \<^verbatim>\<open>open\<close> raises, \<^verbatim>\<open>readline\<close>
  raises, or \<^verbatim>\<open>readline\<close> returns a line and leaving the \<^verbatim>\<open>with\<close> block closes the file, which
  may raise as well.
\<close>

datatype file_io = OpenRaises exn | ReadlineRaises exn | Line string "exn option"

text \<open>
  \<^verbatim>\<open>
  def reload_readiness_state(self) -> None:
      if self._readiness_state_file is None:
          return
      try:
          with open(self._readiness_state_file, "rt") as rt:
              line = rt.readline().strip()
              try:
                  state, _, reason = line.partition(":")
                  self._readiness = srvargs.ReadinessState(state)
                  self._readiness_reason = reason
              except ValueError:
                  self._readiness = srvargs.ReadinessState.Default
      except FileNotFoundError:
          self._readiness = srvargs.ReadinessState.Default
      except Exception as e:
          self._readiness = srvargs.ReadinessState.Default
      self._accepting_connections = self.is_online()
  \<close>
  The first argument is the lookup \<^verbatim>\<open>srvargs.ReadinessState(state)\<close> of a member by its value,
  \<open>None\<close> where Python raises \<^verbatim>\<open>ValueError\<close>: the enumeration's values are declared outside
  the sources.
\<close>

definition parse_readiness_line ::
  "(string \<Rightarrow> ReadinessState option) \<Rightarrow> tenant \<Rightarrow> string \<Rightarrow> tenant" where
  "parse_readiness_line state_of_value t line =
     (case str_partition CHR '':'' line of
        (state, _, reason) \<Rightarrow>
          (case state_of_value state of
             Some st \<Rightarrow> t\<lparr>readiness := st, readiness_reason := reason\<rparr>
           | None \<Rightarrow> t\<lparr>readiness := Default\<rparr>))"

definition reload_readiness_state ::
  "(string \<Rightarrow> ReadinessState option) \<Rightarrow> tenant \<Rightarrow> file_io \<Rightarrow> tenant" where
  "reload_readiness_state state_of_value t io =
     (case readiness_state_file t of
        None \<Rightarrow> t
      | Some _ \<Rightarrow>
          (let t1 =
             (case io of
                OpenRaises e \<Rightarrow> t\<lparr>readiness := Default\<rparr>
              | ReadlineRaises e \<Rightarrow> t\<lparr>readiness := Default\<rparr>
              | Line l closing \<Rightarrow>
                  (let t' = parse_readiness_line state_of_value t (strip l)
                   in case closing of
                        None \<Rightarrow> t'
                      | Some e \<Rightarrow> t'\<lparr>readiness := Default\<rparr>))
           in t1\<lparr>accepting_connections := is_online t1\<rparr>))"

text \<open>
  Modelled from the spec: the values of \<^verbatim>\<open>srvargs.ReadinessState\<close>, for running the scenarios.
  \<^verbatim>\<open>"offline"\<close> and \<^verbatim>\<open>"read_only"\<close> are the ones of scenario 3 and \<^verbatim>\<open>"default"\<close> the one of the log
  messages; \<^verbatim>\<open>"blocked"\<close> follows the same spelling.
\<close>

definition ReadinessState_of_value :: "string \<Rightarrow> ReadinessState option" where
  "ReadinessState_of_value s =
     (if s = ''default'' then Some Default
      else if s = ''read_only'' then Some ReadOnly
      else if s = ''offline'' then Some Offline
      else if s = ''blocked'' then Some Blocked
      else None)"

subsection \<open>JWT checks\<close>

text \<open>
  The claims are a \<^verbatim>\<open>dict[str, Any]\<close> decoded from a token, so a value is any JSON value.
  \<open>truthy\<close> is Python's truth test (\<^verbatim>\<open>not x\<close> is its negation), with a missing key read as
  \<^verbatim>\<open>None\<close> by \<^verbatim>\<open>claims.get\<close>. \<open>py_in\<close> is \<^verbatim>\<open>x in s\<close> for a \<^verbatim>\<open>frozenset[str]\<close>: the test hashes
  \<open>x\<close>, so a list or a dict raises \<^verbatim>\<open>TypeError\<close>; a string is a member iff it is an element,
  and no other value equals a string.
\<close>

datatype json =
    JNull
  | JBool bool
  | JNum real
  | JStr string
  | JArray "json list"
  | JObject "(string \<times> json) list"

fun truthy :: "json option \<Rightarrow> bool" where
  "truthy None = False"
| "truthy (Some JNull) = False"
| "truthy (Some (JBool b)) = b"
| "truthy (Some (JNum n)) = (n \<noteq> 0)"
| "truthy (Some (JStr s)) = (s \<noteq> [])"
| "truthy (Some (JArray xs)) = (xs \<noteq> [])"
| "truthy (Some (JObject kvs)) = (kvs \<noteq> [])"

fun hashable :: "json option \<Rightarrow> bool" where
  "hashable (Some (JArray _)) = False"
| "hashable (Some (JObject _)) = False"
| "hashable _ = True"

fun py_in :: "json option \<Rightarrow> string set \<Rightarrow> exn + bool" where
  "py_in (Some (JStr s)) S = Inr (s \<in> S)"
| "py_in (Some (JArray _)) S = Inl (TypeError (''unhashable type: '' @ quoted ''list''))"
| "py_in (Some (JObject _)) S = Inl (TypeError (''unhashable type: '' @ quoted ''dict''))"
| "py_in _ S = Inr False"

text \<open>
  \<^verbatim>\<open>
  def check_jwt(self, claims: dict[str, Any]) -> None:
      if self._jwt_sub_allowlist is not None:
          subject = claims.get("sub")
          if not subject:
              raise errors.AuthenticationError(
                  "authentication failed: "
                  "JWT does not contain a valid subject claim")
          if subject not in self._jwt_sub_allowlist:
              raise errors.AuthenticationError(
                  "authentication failed: unauthorized subject")
      if self._jwt_revocation_list is not None:
          key_id = claims.get("jti")
          if not key_id:
              raise errors.AuthenticationError(
                  "authentication failed: "
                  "JWT does not contain a valid key id")
          if key_id in self._jwt_revocation_list:
              raise errors.AuthenticationError(
                  "authentication failed: revoked key")
  \<close>
  \<open>check_sub\<close> is the first \<^verbatim>\<open>if\<close> block, \<open>check_jti\<close> the second.
\<close>

definition check_sub :: "tenant \<Rightarrow> (string \<rightharpoonup> json) \<Rightarrow> exn + unit" where
  "check_sub t claims =
     (case jwt_sub_allowlist t of
        None \<Rightarrow> Inr ()
      | Some allowlist \<Rightarrow>
          (let subject = claims ''sub'' in
           if \<not> truthy subject then
             Inl (AuthenticationError
               ''authentication failed: JWT does not contain a valid subject claim'')
           else case py_in subject allowlist of
                  Inl e \<Rightarrow> Inl e
                | Inr isin \<Rightarrow>
                    if \<not> isin then
                      Inl (AuthenticationError ''authentication failed: unauthorized subject'')
                    else Inr ()))"

definition check_jti :: "tenant \<Rightarrow> (string \<rightharpoonup> json) \<Rightarrow> exn + unit" where
  "check_jti t claims =
     (case jwt_revocation_list t of
        None \<Rightarrow> Inr ()
      | Some revocation_list \<Rightarrow>
          (let key_id = claims ''jti'' in
           if \<not> truthy key_id then
             Inl (AuthenticationError
               ''authentication failed: JWT does not contain a valid key id'')
           else case py_in key_id revocation_list of
                  Inl e \<Rightarrow> Inl e
                | Inr isin \<Rightarrow>
                    if isin then
                      Inl (AuthenticationError ''authentication failed: revoked key'')
                    else Inr ()))"

definition check_jwt :: "tenant \<Rightarrow> (string \<rightharpoonup> json) \<Rightarrow> exn + unit" where
  "check_jwt t claims =
     (case check_sub t claims of
        Inl e \<Rightarrow> Inl e
      | Inr _ \<Rightarrow> check_jti t claims)"

fun is_AuthenticationError :: "exn + unit \<Rightarrow> bool" where
  "is_AuthenticationError (Inl (AuthenticationError _)) = True"
| "is_AuthenticationError _ = False"

text \<open>
  The tenant of scenario 6 of the specification, as \<^verbatim>\<open>load_jwcrypto\<close> leaves it after reading an
  allowlist file with the line \<^verbatim>\<open>alice\<close> and a revocation file with the line \<^verbatim>\<open>jti-5\<close>.
\<close>

definition jwt_scenario_tenant :: tenant where
  "jwt_scenario_tenant =
     (tenant_init 5 False None True None)
       \<lparr>jwt_sub_allowlist := Some {''alice''}, jwt_revocation_list := Some {''jti-5''}\<rparr>"

subsection \<open>The system connection\<close>

text \<open>
  \<^verbatim>\<open>
  async def use_sys_pgcon(self):
      if not self._initing and not self._running:
          raise RuntimeError("EdgeDB server is not running.")
      await self._sys_pgcon_waiter.acquire()
      if not self._initing and not self._running:
          self._sys_pgcon_waiter.release()
          raise RuntimeError("EdgeDB server is not running.")
      if self.__sys_pgcon is None or not self.__sys_pgcon.is_healthy():
          conn, self.__sys_pgcon = self.__sys_pgcon, None
          if conn is not None:
              self._sys_pgcon_ready_evt.clear()
              conn.abort()
          # We depend on the reconnect on connection_lost() of __sys_pgcon
          await self._sys_pgcon_ready_evt.wait()
          if self.__sys_pgcon is None:
              self._sys_pgcon_waiter.release()
              raise RuntimeError("Cannot acquire pgcon to the system DB.")
      try:
          yield self.__sys_pgcon
      finally:
          self._sys_pgcon_waiter.release()
  \<close>
  Entering the context manager, up to the \<^verbatim>\<open>yield\<close>: an exception or the connection handed to
  the body. The two suspension points are the lock and the ready event; the environment says
  what the other tasks did during each (the reconnect task, which installs a new system
  connection, among them). The lock itself, which serialises the bodies, is not part of the
  state.
\<close>

record sys_env =
  during_lock :: "tenant \<Rightarrow> tenant"
  during_ready :: "tenant \<Rightarrow> tenant"

definition use_sys_pgcon :: "tenant \<Rightarrow> sys_env \<Rightarrow> (exn + pgconn) \<times> tenant" where
  "use_sys_pgcon t env =
     (if \<not> initing t \<and> \<not> running t then
        (Inl (RuntimeError ''EdgeDB server is not running.''), t)
      else
        (let t1 = during_lock env t in
         if \<not> initing t1 \<and> \<not> running t1 then
           (Inl (RuntimeError ''EdgeDB server is not running.''), t1)
         else
           (case sys_pgcon t1 of
              Some c \<Rightarrow>
                if healthy c then (Inr c, t1)
                else
                  (let t2 = during_ready env
                         (t1\<lparr>sys_pgcon := None, sys_pgcon_ready_evt := False\<rparr>)
                   in case sys_pgcon t2 of
                        None \<Rightarrow>
                          (Inl (RuntimeError ''Cannot acquire pgcon to the system DB.''), t2)
                      | Some c' \<Rightarrow> (Inr c', t2))
            | None \<Rightarrow>
                (let t2 = during_ready env (t1\<lparr>sys_pgcon := None\<rparr>)
                 in case sys_pgcon t2 of
                      None \<Rightarrow>
                        (Inl (RuntimeError ''Cannot acquire pgcon to the system DB.''), t2)
                    | Some c' \<Rightarrow> (Inr c', t2)))))"

subsection \<open>The reported config\<close>

text \<open>
  \<^verbatim>\<open>struct.pack("!L", n)\<close>: the four bytes of \<open>n\<close>, most significant first, and \<^verbatim>\<open>struct.error\<close>
  when \<open>n\<close> does not fit 32 bits. \<open>be_decode\<close> reads a byte string as a big-endian number.
  \<^verbatim>\<open>len(None)\<close> raises \<^verbatim>\<open>TypeError\<close>.
\<close>

definition be_u32 :: "nat \<Rightarrow> bytes" where
  "be_u32 n = [of_nat (n div 2 ^ 24 mod 256), of_nat (n div 2 ^ 16 mod 256),
               of_nat (n div 2 ^ 8 mod 256), of_nat (n mod 256)]"

definition struct_pack_L :: "nat \<Rightarrow> exn + bytes" where
  "struct_pack_L n =
     (if n < 2 ^ 32 then Inr (be_u32 n)
      else Inl (StructError (quoted ''L'' @ '' format requires 0 <= number <= 4294967295'')))"

definition be_decode :: "bytes \<Rightarrow> nat" where
  "be_decode bs = foldl (\<lambda>acc b. acc * 256 + unat b) 0 bs"

definition py_len :: "bytes option \<Rightarrow> exn + nat" where
  "py_len data =
     (case data of
        None \<Rightarrow> Inl (TypeError (''object of type '' @ quoted ''NoneType'' @ '' has no len()''))
      | Some d \<Rightarrow> Inr (length d))"

text \<open>
  \<^verbatim>\<open>
  async def _load_reported_config(self) -> None:
      async with self.use_sys_pgcon() as syscon:
          try:
              data = await syscon.sql_fetch_val(
                  self._server.get_sys_query("report_configs"),
                  use_prep_stmt=True,
              )
              for (
                  protocol_ver,
                  typedesc,
              ) in self._server.get_report_config_typedesc().items():
                  self._report_config_data[protocol_ver] = (
                      struct.pack("!L", len(typedesc))
                      + typedesc
                      + struct.pack("!L", len(data))
                      + data
                  )
          except Exception:
              metrics.background_errors.inc(
                  1.0, self._instance_name, "load_reported_config"
              )
              raise
  \<close>
  The environment gives the outcome of the query (\<^verbatim>\<open>sql_fetch_val\<close> returns bytes or
  \<^verbatim>\<open>None\<close>), what the other tasks did meanwhile, and the items of the server's type descriptor
  dictionary in iteration order. The loop assigns entry by entry, so an exception leaves
  the entries stored before it. The result is the exception raised, if any, and the tenant.
\<close>

record report_env =
  report_sys :: sys_env
  report_configs :: "exn + bytes option"
  during_fetch :: "tenant \<Rightarrow> tenant"
  typedescs :: "(ProtocolVersion \<times> bytes) list"

fun load_reported_loop ::
  "bytes option \<Rightarrow> (ProtocolVersion \<times> bytes) list \<Rightarrow> tenant \<Rightarrow> exn option \<times> tenant" where
  "load_reported_loop data [] t = (None, t)"
| "load_reported_loop data ((protocol_ver, typedesc) # rest) t =
     (case struct_pack_L (length typedesc) of
        Inl e \<Rightarrow> (Some e, t)
      | Inr l1 \<Rightarrow>
          (case py_len data of
             Inl e \<Rightarrow> (Some e, t)
           | Inr n \<Rightarrow>
               (case struct_pack_L n of
                  Inl e \<Rightarrow> (Some e, t)
                | Inr l2 \<Rightarrow>
                    load_reported_loop data rest
                      (t\<lparr>report_config_data := (report_config_data t)
                           (protocol_ver \<mapsto> l1 @ typedesc @ l2 @ the data)\<rparr>))))"

definition load_reported_config :: "tenant \<Rightarrow> report_env \<Rightarrow> exn option \<times> tenant" where
  "load_reported_config t env =
     (case use_sys_pgcon t (report_sys env) of
        (Inl e, t1) \<Rightarrow> (Some e, t1)
      | (Inr syscon, t1) \<Rightarrow>
          (let t2 = during_fetch env t1 in
           case report_configs env of
             Inl e \<Rightarrow> (Some e, t2)
           | Inr data \<Rightarrow> load_reported_loop data (typedescs env) t2))"

text \<open>
  A connection as \<^verbatim>\<open>pgcon.connect\<close> hands it over: healthy, with no mark set. And a tenant that
  is initialising with such a connection to the system database installed, as after
  \<^verbatim>\<open>init_sys_pgcon\<close>.
\<close>

definition fresh_conn :: "string \<Rightarrow> pgconn" where
  "fresh_conn pg_dbname =
     \<lparr>conn_dbname = pg_dbname, healthy = True, stmt_cache_size = None, tenant_set = False,
      terminated = False, aborted = False, system_db = False, listening = False\<rparr>"

definition quiet :: sys_env where
  "quiet = \<lparr>during_lock = (\<lambda>t. t), during_ready = (\<lambda>t. t)\<rparr>"

definition initing_tenant :: tenant where
  "initing_tenant =
     (tenant_init 5 False None True None)
       \<lparr>sys_pgcon := Some ((fresh_conn ''__edgedbsys__'')\<lparr>tenant_set := True\<rparr>)\<rparr>"

subsection \<open>Connecting to the backend\<close>

text \<open>
  \<^verbatim>\<open>
  async def _pg_connect(self, dbname: str) -> pgcon.PGConnection:
      ha_serial = self._ha_master_serial
      if self.get_backend_runtime_params().has_create_database:
          pg_dbname = self.get_pg_dbname(dbname)
      else:
          pg_dbname = self.get_pg_dbname(defines.EDGEDB_SUPERUSER_DB)
      started_at = time.monotonic()
      try:
          rv = await pgcon.connect(
              self.get_pgaddr(), pg_dbname, self.get_backend_runtime_params()
          )
          if self._server.stmt_cache_size is not None:
              rv.set_stmt_cache_size(self._server.stmt_cache_size)
      except Exception:
          metrics.backend_connection_establishment_errors.inc(
              1.0, self._instance_name
          )
          raise
      finally:
          metrics.backend_connection_establishment_latency.observe(
              time.monotonic() - started_at, self._instance_name
          )
      if ha_serial == self._ha_master_serial:
          rv.set_tenant(self)
          if self._backend_adaptive_ha is not None:
              self._backend_adaptive_ha.on_pgcon_made(
                  dbname == defines.EDGEDB_SYSTEM_DB
              )
          metrics.total_backend_connections.inc(1.0, self._instance_name)
          metrics.current_backend_connections.inc(1.0, self._instance_name)
          return rv
      else:
          rv.terminate()
          raise ConnectionError("connected to outdated Postgres master")
  \<close>
  The environment of one call: \<open>pgcon_connect\<close> is the outcome of \<^verbatim>\<open>pgcon.connect\<close> for the
  backend database name it is given, and \<open>during_connect\<close> what the other tasks did to the
  tenant while the call awaited it (\<^verbatim>\<open>on_switch_over\<close>, which adds 1 to
  \<^verbatim>\<open>_ha_master_serial\<close>, among them). \<open>get_db_name\<close> is the cluster's \<^verbatim>\<open>get_db_name\<close>.
  The result is what the call returns or raises, the connection object as the call leaves
  it (\<open>None\<close> when \<^verbatim>\<open>pgcon.connect\<close> raised), and the tenant.
\<close>

record connect_env =
  pgcon_connect :: "string \<Rightarrow> exn + pgconn"
  during_connect :: "tenant \<Rightarrow> tenant"

definition set_stmt_cache :: "tenant \<Rightarrow> pgconn \<Rightarrow> pgconn" where
  "set_stmt_cache t rv =
     (case server_stmt_cache_size t of
        None \<Rightarrow> rv
      | Some n \<Rightarrow> rv\<lparr>stmt_cache_size := Some n\<rparr>)"

definition on_pgcon_made :: "bool \<Rightarrow> tenant \<Rightarrow> tenant" where
  "on_pgcon_made is_sys t =
     (case backend_adaptive_ha t of
        None \<Rightarrow> t
      | Some calls \<Rightarrow> t\<lparr>backend_adaptive_ha := Some (calls @ [OnPgconMade is_sys])\<rparr>)"

definition connect_dbname :: "srv_defines \<Rightarrow> (string \<Rightarrow> string) \<Rightarrow> tenant \<Rightarrow> string \<Rightarrow> string" where
  "connect_dbname defs get_db_name t dbname =
     (if has_create_database t then get_db_name dbname
      else get_db_name (EDGEDB_SUPERUSER_DB defs))"

definition pg_connect ::
  "srv_defines \<Rightarrow> (string \<Rightarrow> string) \<Rightarrow> tenant \<Rightarrow> string \<Rightarrow> connect_env \<Rightarrow>
     (exn + pgconn) \<times> pgconn option \<times> tenant" where
  "pg_connect defs get_db_name t dbname env =
     (let ha_serial = ha_master_serial t;
          pg_dbname = connect_dbname defs get_db_name t dbname;
          t1 = during_connect env t
      in case pgcon_connect env pg_dbname of
           Inl e \<Rightarrow> (Inl e, None, t1)
         | Inr rv0 \<Rightarrow>
             (let rv = set_stmt_cache t1 rv0 in
              if ha_serial = ha_master_serial t1 then
                (let rv' = rv\<lparr>tenant_set := True\<rparr>
                 in (Inr rv', Some rv', on_pgcon_made (dbname = EDGEDB_SYSTEM_DB defs) t1))
              else
                (Inl (ConnectionError ''connected to outdated Postgres master''),
                 Some (rv\<lparr>terminated := True\<rparr>), t1)))"

text \<open>The constants and the cluster's naming used when running the scenarios.\<close>

definition scenario_defines :: srv_defines where
  "scenario_defines =
     \<lparr>EDGEDB_TEMPLATE_DB = ''__edgedbtpl__'', EDGEDB_SYSTEM_DB = ''__edgedbsys__'',
      EDGEDB_SUPERUSER_DB = ''edgedb'', SYSTEM_DB_RECONNECT_INTERVAL = 1\<rparr>"

definition switch_over_during :: "tenant \<Rightarrow> tenant" where
  "switch_over_during t = t\<lparr>ha_master_serial := ha_master_serial t + 1\<rparr>"

subsection \<open>Acquiring a pool connection\<close>

text \<open>
  \<^verbatim>\<open>
  async def acquire_pgcon(self, dbname: str) -> pgcon.PGConnection:
      if self._pg_unavailable_msg is not None:
          raise errors.BackendUnavailableError(
              "Postgres is not available: " + self._pg_unavailable_msg
          )

      for _ in range(self._pg_pool.max_capacity):
          conn = await self._pg_pool.acquire(dbname)
          if conn.is_healthy():
              return conn
          else:
              logger.warning("Acquired an unhealthy pgcon; discard now.")
              self._pg_pool.release(dbname, conn, discard=True)
      else:
          # This is unlikely to happen, but we defer to the caller to retry
          # when it does happen
          raise errors.BackendUnavailableError(
              "No healthy backend connection available at the moment, "
              "please try again."
          )
  \<close>
  The environment \<open>acq\<close> gives the outcome of the \<open>i\<close>-th \<^verbatim>\<open>await self._pg_pool.acquire(dbname)\<close> of
  the call, counted from 0: an exception or a connection. \<open>acquire_loop acq dbname i n p\<close> is
  the \<^verbatim>\<open>for\<close> loop with \<open>n\<close> iterations left, the next acquire being the \<open>i\<close>-th; its first
  equation is the \<^verbatim>\<open>else\<close> branch of the loop. \<^verbatim>\<open>range(n)\<close> is empty for \<open>n \<le> 0\<close>. No tenant
  attribute is read after an \<^verbatim>\<open>await\<close>.
\<close>

fun acquire_loop ::
  "(nat \<Rightarrow> exn + pgconn) \<Rightarrow> string \<Rightarrow> nat \<Rightarrow> nat \<Rightarrow> pool \<Rightarrow> (exn + pgconn) \<times> pool" where
  "acquire_loop acq dbname i 0 p =
     (Inl (BackendUnavailableError
        ''No healthy backend connection available at the moment, please try again.''), p)"
| "acquire_loop acq dbname i (Suc n) p =
     (let p1 = pool_log (Acquire dbname) p in
      case acq i of
        Inl e \<Rightarrow> (Inl e, p1)
      | Inr conn \<Rightarrow>
          if healthy conn then (Inr conn, p1)
          else acquire_loop acq dbname (Suc i) n (pool_log (Release dbname conn True) p1))"

definition acquire_pgcon ::
  "tenant \<Rightarrow> string \<Rightarrow> (nat \<Rightarrow> exn + pgconn) \<Rightarrow> (exn + pgconn) \<times> tenant" where
  "acquire_pgcon t dbname acq =
     (case pg_unavailable_msg t of
        Some msg \<Rightarrow>
          (Inl (BackendUnavailableError (''Postgres is not available: '' @ msg)), t)
      | None \<Rightarrow>
          (case acquire_loop acq dbname 0 (nat (max_capacity (pg_pool t))) (pg_pool t) of
             (r, p) \<Rightarrow> (r, t\<lparr>pg_pool := p\<rparr>)))"

text \<open>
  The pool calls of \<open>k\<close> rounds that each acquire an unhealthy connection and release it with
  \<^verbatim>\<open>discard=True\<close>, starting with acquire number \<open>i\<close>.
\<close>

definition discard_rounds :: "(nat \<Rightarrow> exn + pgconn) \<Rightarrow> string \<Rightarrow> nat \<Rightarrow> nat \<Rightarrow> pool_call list" where
  "discard_rounds acq dbname i k =
     concat (map (\<lambda>j. [Acquire dbname, Release dbname (projr (acq j)) True]) [i..<i + k])"

text \<open>
  Connections as the pool hands them out: one in good health and one whose transport has
  failed. A pool script for the scenarios: the first acquire gives the unhealthy
  connection, every later one the healthy one.
\<close>

definition pooled_conn :: "string \<Rightarrow> pgconn" where
  "pooled_conn pg_dbname = (fresh_conn pg_dbname)\<lparr>tenant_set := True\<rparr>"

definition sick_conn :: "string \<Rightarrow> pgconn" where
  "sick_conn pg_dbname = (fresh_conn pg_dbname)\<lparr>healthy := False, tenant_set := True\<rparr>"

definition second_is_healthy :: "nat \<Rightarrow> exn + pgconn" where
  "second_is_healthy i = (if i = 0 then Inr (sick_conn ''app'') else Inr (pooled_conn ''app''))"

subsection \<open>Early introspection\<close>

text \<open>
  \<^verbatim>\<open>
  def release_pgcon(self, dbname, conn, *, discard: bool = False) -> None:
      if not conn.is_healthy():
          if not discard:
              logger.warning("Released an unhealthy pgcon; discard now.")
          discard = True
      try:
          self._pg_pool.release(dbname, conn, discard=discard)
      except Exception:
          metrics.background_errors.inc(
              1.0, self._instance_name, "release_pgcon"
          )
          raise
  \<close>
\<close>

definition release_pgcon :: "tenant \<Rightarrow> string \<Rightarrow> pgconn \<Rightarrow> bool \<Rightarrow> tenant" where
  "release_pgcon t dbname conn discard =
     (let discard' = (if \<not> healthy conn then True else discard)
      in t\<lparr>pg_pool := pool_log (Release dbname conn discard') (pg_pool t)\<rparr>)"

text \<open>
  \<^verbatim>\<open>
  async def _acquire_intro_pgcon(self, dbname: str) -> pgcon.PGConnection | None:
      try:
          conn = await self.acquire_pgcon(dbname)
      except pgcon_errors.BackendError as e:
          if e.code_is(pgcon_errors.ERROR_INVALID_CATALOG_NAME):
              # database does not exist (anymore)
              logger.warning(
                  "Detected concurrently-dropped database %s; skipping.",
                  dbname,
              )
              if self._dbindex is not None and self._dbindex.has_db(dbname):
                  self._dbindex.unregister_db(dbname)
              return None
          else:
              raise
      return conn
  \<close>
  \<open>during\<close> is what the other tasks did while \<^verbatim>\<open>acquire_pgcon\<close> was awaited.
\<close>

definition acquire_intro_pgcon ::
  "tenant \<Rightarrow> string \<Rightarrow> (nat \<Rightarrow> exn + pgconn) \<Rightarrow> (tenant \<Rightarrow> tenant) \<Rightarrow>
     (exn + pgconn option) \<times> tenant" where
  "acquire_intro_pgcon t dbname acq during =
     (case acquire_pgcon t dbname acq of
        (Inr conn, t1) \<Rightarrow> (Inr (Some conn), during t1)
      | (Inl e, t1) \<Rightarrow>
          (let t2 = during t1 in
           if is_BackendError e then
             if code_is e ERROR_INVALID_CATALOG_NAME then
               (Inr None,
                case dbindex t2 of
                  None \<Rightarrow> t2
                | Some idx \<Rightarrow>
                    if has_db idx dbname then t2\<lparr>dbindex := Some (unregister_db idx dbname)\<rparr>
                    else t2)
             else (Inl e, t2)
           else (Inl e, t2)))"

text \<open>
  \<^verbatim>\<open>
  async def _introspect_extensions(self, conn) -> set[str]:
      extension_names_json = await conn.sql_fetch_val(
          b"""SELECT json_agg(name) FROM edgedb."_SchemaExtension";""")
      if extension_names_json:
          extensions = set(json.loads(extension_names_json))
      else:
          extensions = set()
      return extensions

  async def _early_introspect_db(self, dbname: str) -> None:
      conn = await self._acquire_intro_pgcon(dbname)
      if not conn:
          return
      try:
          assert self._dbindex is not None
          if not self._dbindex.has_db(dbname):
              extensions = await self._introspect_extensions(conn)
              # Re-check in case we have a concurrent introspection task.
              if not self._dbindex.has_db(dbname):
                  self._dbindex.register_db(
                      dbname,
                      user_schema_pickle=None,
                      db_config=None,
                      reflection_cache=None,
                      backend_ids=None,
                      extensions=extensions,
                      ext_config_settings=None,
                  )
      finally:
          self.release_pgcon(dbname, conn)
  \<close>
  The environment: the pool's acquire outcomes and what the other tasks did while the
  connection was acquired; the outcome of the extension query, already decoded (\<open>None\<close> for
  an empty result); what the other tasks did during the query; and what the query did to
  the connection object. The result is the exception raised, if any, and the tenant.
\<close>

record early_env =
  early_acquire :: "nat \<Rightarrow> exn + pgconn"
  during_acquire :: "tenant \<Rightarrow> tenant"
  ext_names :: "exn + string list option"
  during_introspect :: "tenant \<Rightarrow> tenant"
  conn_after :: "pgconn \<Rightarrow> pgconn"

definition introspected_extensions :: "string list option \<Rightarrow> string set" where
  "introspected_extensions names = (case names of None \<Rightarrow> {} | Some ns \<Rightarrow> set ns)"

definition early_introspect_db :: "tenant \<Rightarrow> string \<Rightarrow> early_env \<Rightarrow> exn option \<times> tenant" where
  "early_introspect_db t dbname env =
     (case acquire_intro_pgcon t dbname (early_acquire env) (during_acquire env) of
        (Inl e, t1) \<Rightarrow> (Some e, t1)
      | (Inr None, t1) \<Rightarrow> (None, t1)
      | (Inr (Some conn), t1) \<Rightarrow>
          (case dbindex t1 of
             None \<Rightarrow> (Some AssertionError, release_pgcon t1 dbname conn False)
           | Some idx \<Rightarrow>
               if \<not> has_db idx dbname then
                 (let t2 = during_introspect env t1; conn' = conn_after env conn in
                  case ext_names env of
                    Inl e \<Rightarrow> (Some e, release_pgcon t2 dbname conn' False)
                  | Inr names \<Rightarrow>
                      (case dbindex t2 of
                         None \<Rightarrow>
                           (Some (OtherException ''AttributeError''),
                            release_pgcon t2 dbname conn' False)
                       | Some idx2 \<Rightarrow>
                           if \<not> has_db idx2 dbname then
                             (None, release_pgcon
                                (t2\<lparr>dbindex := Some (register_db idx2 dbname None None None None
                                   (introspected_extensions names) None)\<rparr>)
                                dbname conn' False)
                           else (None, release_pgcon t2 dbname conn' False)))
               else (None, release_pgcon t1 dbname conn False)))"

text \<open>
  A running tenant whose index knows the database \<^verbatim>\<open>gone\<close>, and an environment in which the
  backend reports that this database no longer exists while no other task touches the
  tenant.
\<close>

definition known_entry :: db_entry where
  "known_entry =
     \<lparr>user_schema_pickle = None, db_config = None, reflection_cache = None,
      backend_ids = None, extensions = {''graphql''}, ext_config_settings = None, views = 0\<rparr>"

definition running_tenant :: tenant where
  "running_tenant =
     initing_tenant\<lparr>initing := False, running := True, accepting_connections := True,
       accept_new_tasks := True, sys_pgcon_ready_evt := True,
       dbindex := Some [''gone'' \<mapsto> known_entry]\<rparr>"

definition dropped_env :: early_env where
  "dropped_env =
     \<lparr>early_acquire = (\<lambda>i. Inl (BackendError ERROR_INVALID_CATALOG_NAME)),
      during_acquire = (\<lambda>t. t), ext_names = Inr None, during_introspect = (\<lambda>t. t),
      conn_after = (\<lambda>c. c)\<rparr>"

definition healthy_env :: early_env where
  "healthy_env =
     \<lparr>early_acquire = (\<lambda>i. Inr (pooled_conn ''db'')),
      during_acquire = (\<lambda>t. t), ext_names = Inr (Some [''graphql'']),
      during_introspect = (\<lambda>t. t), conn_after = (\<lambda>c. c)\<rparr>"

subsection \<open>Reconnecting the system connection\<close>

text \<open>
  \<^verbatim>\<open>
  await asyncio.wait_for(
      self._sys_pgcon_reconnect_evt.wait(),
      defines.SYSTEM_DB_RECONNECT_INTERVAL,
  )
  \<close>
  \<^verbatim>\<open>asyncio.wait_for\<close> over \<^verbatim>\<open>Event.wait\<close>. With a timeout that is not positive it raises
  \<^verbatim>\<open>TimeoutError\<close> at once, also when the event is set: the task that waits has not run yet
  and is cancelled. With a positive timeout it returns at once when the event is already
  set; it returns when another task sets the event before the timeout has passed; otherwise
  it raises \<^verbatim>\<open>TimeoutError\<close> once the timeout has passed. \<open>set_after\<close> says how long after the
  start of the wait another task sets the event, if any does, and \<open>during\<close> what the other
  tasks did to the tenant meanwhile. The result: whether the wait returned normally, how
  long it took, and the tenant.
\<close>

definition wait_for_reconnect_evt ::
  "real \<Rightarrow> tenant \<Rightarrow> real option \<Rightarrow> (tenant \<Rightarrow> tenant) \<Rightarrow> bool \<times> real \<times> tenant" where
  "wait_for_reconnect_evt timeout t set_after during =
     (if timeout \<le> 0 then (False, 0, during t)
      else if sys_pgcon_reconnect_evt t then (True, 0, during t)
      else
        (case set_after of
           Some d \<Rightarrow>
             if 0 \<le> d \<and> d < timeout then
               (True, d, (during t)\<lparr>sys_pgcon_reconnect_evt := True\<rparr>)
             else (False, timeout, during t)
         | None \<Rightarrow> (False, timeout, during t)))"

text \<open>
  \<^verbatim>\<open>
  async def _reconnect_sys_pgcon(self) -> None:
      try:
          conn = None
          while self._running:
              try:
                  conn = await self._pg_connect(defines.EDGEDB_SYSTEM_DB)
                  break
              except OSError:
                  # Keep retrying as far as:
                  #   1. This tenant is still running,
                  #   2. We still cannot connect to the Postgres cluster, or
                  pass
              except pgcon_errors.BackendError as e:
                  #   3. The Postgres cluster is still starting up, or the
                  #      HA failover is still in progress
                  if not (
                      e.code_is(pgcon_errors.ERROR_FEATURE_NOT_SUPPORTED)
                      or e.code_is(pgcon_errors.ERROR_CANNOT_CONNECT_NOW)
                      or e.code_is(
                          pgcon_errors.ERROR_READ_ONLY_SQL_TRANSACTION
                      )
                  ):
                      # TODO: ERROR_FEATURE_NOT_SUPPORTED should be removed
                      # once PostgreSQL supports SERIALIZABLE in hot standbys
                      raise

              if self._running:
                  try:
                      # Retry after INTERVAL seconds, unless the event is set
                      # and we can retry immediately after the event.
                      await asyncio.wait_for(
                          self._sys_pgcon_reconnect_evt.wait(),
                          defines.SYSTEM_DB_RECONNECT_INTERVAL,
                      )
                      # But the event can only skip one INTERVAL.
                      self._sys_pgcon_reconnect_evt.clear()
                  except asyncio.TimeoutError:
                      pass

          if not self._running:
              if conn is not None:
                  conn.abort()
              return

          assert conn is not None
          logger.info("Successfully reconnected to the system database.")
          self.__sys_pgcon = conn
          self.__sys_pgcon.mark_as_system_db()
          # This await is meant to be after mark_as_system_db() because we
          # need the pgcon to be able to trigger another reconnect if its
          # connection is lost during this await.
          await self.__sys_pgcon.listen_for_sysevent()
          self.set_pg_unavailable_msg(None)
      finally:
          self._sys_pgcon_ready_evt.set()
  \<close>
  The \<^verbatim>\<open>while\<close> loop is \<open>reconnect_loop\<close>. It can run forever, so it runs against a script: one
  \<open>round_env\<close> per iteration, with the environment of the connection attempt and of the wait
  that may follow it. The result is \<open>None\<close> when the script ends while the loop is still
  running. Otherwise it is how the loop ended (the exception that left it, or the value of
  \<^verbatim>\<open>conn\<close>), what the loop did (each connection attempt with its outcome, each wait with
  its duration and whether the event ended it), and the tenant.
\<close>

record round_env =
  round_connect :: connect_env
  evt_set_after :: "real option"
  during_wait :: "tenant \<Rightarrow> tenant"

datatype action = Attempt "exn + pgconn" | Wait real bool

type_synonym loop_result = "(exn + pgconn option) \<times> action list \<times> tenant"

definition with_actions :: "action list \<Rightarrow> loop_result \<Rightarrow> loop_result" where
  "with_actions acts res = (case res of (how, later, t) \<Rightarrow> (how, acts @ later, t))"

definition actions_of :: "loop_result \<Rightarrow> action list" where
  "actions_of res = fst (snd res)"

fun reconnect_loop ::
  "srv_defines \<Rightarrow> (string \<Rightarrow> string) \<Rightarrow> tenant \<Rightarrow> round_env list \<Rightarrow> loop_result option" where
  "reconnect_loop defs get_db_name t [] =
     (if \<not> running t then Some (Inr None, [], t) else None)"
| "reconnect_loop defs get_db_name t (r # rest) =
     (if \<not> running t then Some (Inr None, [], t)
      else
        (case pg_connect defs get_db_name t (EDGEDB_SYSTEM_DB defs) (round_connect r) of
           (Inr conn, rv, t1) \<Rightarrow> Some (Inr (Some conn), [Attempt (Inr conn)], t1)
         | (Inl e, rv, t1) \<Rightarrow>
             if \<not> is_OSError e \<and>
                (\<not> is_BackendError e \<or>
                 \<not> (code_is e ERROR_FEATURE_NOT_SUPPORTED
                    \<or> code_is e ERROR_CANNOT_CONNECT_NOW
                    \<or> code_is e ERROR_READ_ONLY_SQL_TRANSACTION))
             then Some (Inl e, [Attempt (Inl e)], t1)
             else if running t1 then
               (case wait_for_reconnect_evt (SYSTEM_DB_RECONNECT_INTERVAL defs) t1
                       (evt_set_after r) (during_wait r) of
                  (fired, d, t2) \<Rightarrow>
                    map_option (with_actions [Attempt (Inl e), Wait d fired])
                      (reconnect_loop defs get_db_name
                         (if fired then t2\<lparr>sys_pgcon_reconnect_evt := False\<rparr> else t2) rest))
             else
               map_option (with_actions [Attempt (Inl e)])
                 (reconnect_loop defs get_db_name t1 rest)))"

text \<open>
  The whole method: the loop, then the part after it, with \<^verbatim>\<open>finally\<close> setting the ready
  event on every path. \<open>listen_raises\<close> is the outcome of \<^verbatim>\<open>listen_for_sysevent\<close> and
  \<open>during_listen\<close> what the other tasks did while it was awaited. The result is the exception
  raised, if any, the loop's actions, the connection aborted because the tenant had
  stopped, if any, and the tenant.
\<close>

record listen_env =
  listen_raises :: "exn option"
  during_listen :: "tenant \<Rightarrow> tenant"

definition reconnect_sys_pgcon ::
  "srv_defines \<Rightarrow> (string \<Rightarrow> string) \<Rightarrow> tenant \<Rightarrow> round_env list \<Rightarrow> listen_env \<Rightarrow>
     (exn option \<times> action list \<times> pgconn option \<times> tenant) option" where
  "reconnect_sys_pgcon defs get_db_name t rounds env =
     map_option
       (\<lambda>(how, acts, t1).
          case how of
            Inl e \<Rightarrow> (Some e, acts, None, t1\<lparr>sys_pgcon_ready_evt := True\<rparr>)
          | Inr conn \<Rightarrow>
              if \<not> running t1 then
                (None, acts, map_option (\<lambda>c. c\<lparr>aborted := True\<rparr>) conn,
                 t1\<lparr>sys_pgcon_ready_evt := True\<rparr>)
              else
                (case conn of
                   None \<Rightarrow> (Some AssertionError, acts, None, t1\<lparr>sys_pgcon_ready_evt := True\<rparr>)
                 | Some c \<Rightarrow>
                     (case listen_raises env of
                        Some e \<Rightarrow>
                          (Some e, acts, None,
                           (during_listen env (t1\<lparr>sys_pgcon := Some (c\<lparr>system_db := True\<rparr>)\<rparr>))
                             \<lparr>sys_pgcon_ready_evt := True\<rparr>)
                      | None \<Rightarrow>
                          (None, acts, None,
                           (set_pg_unavailable_msg
                              (during_listen env
                                 (t1\<lparr>sys_pgcon :=
                                    Some (c\<lparr>system_db := True, listening := True\<rparr>)\<rparr>))
                              None)
                             \<lparr>sys_pgcon_ready_evt := True\<rparr>))))
       (reconnect_loop defs get_db_name t rounds)"

text \<open>
  A running tenant that has lost its system connection, as
  \<^verbatim>\<open>on_sys_pgcon_connection_lost\<close> leaves it, and three rounds for the scenarios: the backend
  refuses the connection and the reconnect event is set a quarter of a second into the wait;
  the backend accepts the connection; the backend rejects the password.
\<close>

definition lost_tenant :: tenant where
  "lost_tenant =
     running_tenant\<lparr>sys_pgcon := None, sys_pgcon_ready_evt := False,
       pg_unavailable_msg :=
         Some ''Connection is lost, please check server log for the reason.''\<rparr>"

definition refused_round :: round_env where
  "refused_round =
     \<lparr>round_connect =
        \<lparr>pgcon_connect = (\<lambda>n. Inl (OSError ''connection refused'')),
         during_connect = (\<lambda>t. t)\<rparr>,
      evt_set_after = Some (1 / 4), during_wait = (\<lambda>t. t)\<rparr>"

definition accepted_round :: round_env where
  "accepted_round =
     \<lparr>round_connect =
        \<lparr>pgcon_connect = (\<lambda>n. Inr (fresh_conn n)), during_connect = (\<lambda>t. t)\<rparr>,
      evt_set_after = None, during_wait = (\<lambda>t. t)\<rparr>"

definition rejected_round :: round_env where
  "rejected_round =
     \<lparr>round_connect =
        \<lparr>pgcon_connect = (\<lambda>n. Inl (BackendError (OTHER_CODE ''28P01''))),
         during_connect = (\<lambda>t. t)\<rparr>,
      evt_set_after = None, during_wait = (\<lambda>t. t)\<rparr>"

subsection \<open>Making sure a database is not connected\<close>



text \<open>
  \<^verbatim>\<open>
  async def _pg_ensure_database_not_connected(self, dbname: str) -> None:
      async with self.use_sys_pgcon() as pgcon:
          conns = await pgcon.sql_fetch_col(
              b"""
              SELECT
                  pid
              FROM
                  pg_stat_activity
              WHERE
                  datname = $1
              """,
              args=[dbname.encode("utf-8")],
          )

      if conns:
          raise errors.ExecutionError(
              f"database {dbname!r} is being accessed by other users"
          )
  \<close>
  \<open>pg_stat_activity\<close> is the outcome of the query for a database name: an exception, or the
  pids of the sessions on that database. \<open>being_accessed\<close> is the exception both this method
  and \<^verbatim>\<open>ensure_database_not_connected\<close> raise, with \<^verbatim>\<open>{dbname!r}\<close> as \<open>py_repr dbname\<close>.
\<close>

record poll_env =
  poll_sys :: sys_env
  pg_stat_activity :: "string \<Rightarrow> exn + nat list"
  during_poll :: "tenant \<Rightarrow> tenant"

definition being_accessed :: "string \<Rightarrow> exn" where
  "being_accessed dbname =
     ExecutionError (''database '' @ py_repr dbname @ '' is being accessed by other users'')"

definition pg_ensure_database_not_connected ::
  "tenant \<Rightarrow> string \<Rightarrow> poll_env \<Rightarrow> exn option \<times> tenant" where
  "pg_ensure_database_not_connected t dbname env =
     (case use_sys_pgcon t (poll_sys env) of
        (Inl e, t1) \<Rightarrow> (Some e, t1)
      | (Inr pgcon, t1) \<Rightarrow>
          (let t2 = during_poll env t1 in
           case pg_stat_activity env dbname of
             Inl e \<Rightarrow> (Some e, t2)
           | Inr conns \<Rightarrow>
               if conns \<noteq> [] then (Some (being_accessed dbname), t2) else (None, t2)))"



















section \<open>Properties\<close>

subsection \<open>The unavailable message\<close>

lemma set_pg_unavailable_msg_keeps:
  "pg_unavailable_msg t = Some m \<Longrightarrow> None \<notin> set msgs \<Longrightarrow>
     pg_unavailable_msg (foldl set_pg_unavailable_msg t msgs) = Some m"
  by (induction msgs arbitrary: t) (auto simp: set_pg_unavailable_msg_def)

text \<open>
  Claim C8. \<^verbatim>\<open>set_pg_unavailable_msg(msg)\<close> writes \<^verbatim>\<open>pg_unavailable_msg\<close> only when \<^verbatim>\<open>msg\<close> is
  \<^verbatim>\<open>None\<close> or the current message is \<^verbatim>\<open>None\<close>, and touches nothing else. So in every sequence
  of calls (a \<open>foldl\<close> over the arguments) a message that is set stays, verbatim, through any
  later calls with non-null messages; the first non-null message after an empty state is
  the one retained; and a call with \<^verbatim>\<open>None\<close> clears it.
\<close>

theorem set_pg_unavailable_msg_first_retained:
  "set_pg_unavailable_msg t msg =
     (if msg = None \<or> pg_unavailable_msg t = None then t\<lparr>pg_unavailable_msg := msg\<rparr> else t)
   \<and> (pg_unavailable_msg t = Some m \<and> None \<notin> set later \<longrightarrow>
        pg_unavailable_msg (foldl set_pg_unavailable_msg t later) = Some m)
   \<and> (pg_unavailable_msg t = None \<and> None \<notin> set later \<longrightarrow>
        pg_unavailable_msg (foldl set_pg_unavailable_msg t (Some m # later)) = Some m)
   \<and> pg_unavailable_msg (foldl set_pg_unavailable_msg t (msgs @ [None])) = None"
proof -
  have step: "set_pg_unavailable_msg t msg =
     (if msg = None \<or> pg_unavailable_msg t = None then t\<lparr>pg_unavailable_msg := msg\<rparr> else t)"
    by (simp add: set_pg_unavailable_msg_def)
  have kept: "pg_unavailable_msg t = Some m \<and> None \<notin> set later \<longrightarrow>
        pg_unavailable_msg (foldl set_pg_unavailable_msg t later) = Some m"
    using set_pg_unavailable_msg_keeps by blast
  have first: "pg_unavailable_msg t = None \<and> None \<notin> set later \<longrightarrow>
        pg_unavailable_msg (foldl set_pg_unavailable_msg t (Some m # later)) = Some m"
  proof (intro impI, elim conjE)
    assume none: "pg_unavailable_msg t = None" and later: "None \<notin> set later"
    have "pg_unavailable_msg (set_pg_unavailable_msg t (Some m)) = Some m"
      using none by (simp add: set_pg_unavailable_msg_def)
    from set_pg_unavailable_msg_keeps [OF this later]
    show "pg_unavailable_msg (foldl set_pg_unavailable_msg t (Some m # later)) = Some m"
      by simp
  qed
  have cleared: "pg_unavailable_msg (foldl set_pg_unavailable_msg t (msgs @ [None])) = None"
    by (simp add: set_pg_unavailable_msg_def)
  from step kept first cleared show ?thesis by blast
qed

theorem set_pg_unavailable_msg_first_retained_witness:
  "pg_unavailable_msg (tenant_init 5 False None True None) = None
   \<and> None \<notin> set [Some ''second'', Some ''third'']
   \<and> pg_unavailable_msg (foldl set_pg_unavailable_msg (tenant_init 5 False None True None)
        (Some ''first'' # [Some ''second'', Some ''third''])) = Some ''first''
   \<and> pg_unavailable_msg ((tenant_init 5 False None True None)\<lparr>pg_unavailable_msg := Some ''lost''\<rparr>)
       = Some ''lost''
   \<and> pg_unavailable_msg (foldl set_pg_unavailable_msg
        ((tenant_init 5 False None True None)\<lparr>pg_unavailable_msg := Some ''lost''\<rparr>)
        [Some ''second'', Some ''third'']) = Some ''lost''
   \<and> pg_unavailable_msg (foldl set_pg_unavailable_msg (tenant_init 5 False None True None)
        ([Some ''first'', Some ''second''] @ [None])) = None"
proof -
  let ?t = "tenant_init 5 False None True None"
  let ?u = "?t\<lparr>pg_unavailable_msg := Some ''lost''\<rparr>"
  have t: "pg_unavailable_msg ?t = None"
    by (simp add: tenant_init_def)
  have u: "pg_unavailable_msg ?u = Some ''lost''"
    by simp
  have l: "None \<notin> set [Some ''second'', Some ''third'']"
    by simp
  from set_pg_unavailable_msg_first_retained
      [of ?t "Some ''first''" "''first''" "[Some ''second'', Some ''third'']"
          "[Some ''first'', Some ''second'']"] t l
  have a: "pg_unavailable_msg (foldl set_pg_unavailable_msg ?t
        (Some ''first'' # [Some ''second'', Some ''third''])) = Some ''first''"
    and c: "pg_unavailable_msg (foldl set_pg_unavailable_msg ?t
        ([Some ''first'', Some ''second''] @ [None])) = None"
    by blast+
  from set_pg_unavailable_msg_first_retained
      [of ?u "Some ''x''" "''lost''" "[Some ''second'', Some ''third'']" "[]"] u l
  have b: "pg_unavailable_msg (foldl set_pg_unavailable_msg ?u
        [Some ''second'', Some ''third'']) = Some ''lost''"
    by blast
  from t l a u b c show ?thesis by blast
qed

subsection \<open>Connectable databases\<close>

text \<open>
  Claim C10. \<^verbatim>\<open>is_database_connectable(dbname)\<close> is true iff \<^verbatim>\<open>dbname\<close> is not the template
  database and is not in \<^verbatim>\<open>block_new_connections\<close>; the template database is not connectable
  in any tenant state, in particular when \<^verbatim>\<open>block_new_connections\<close> is empty.
\<close>

theorem is_database_connectable_iff:
  "(is_database_connectable defs t dbname \<longleftrightarrow>
      dbname \<noteq> EDGEDB_TEMPLATE_DB defs \<and> dbname \<notin> block_new_connections t)
   \<and> \<not> is_database_connectable defs t (EDGEDB_TEMPLATE_DB defs)
   \<and> \<not> is_database_connectable defs (t\<lparr>block_new_connections := {}\<rparr>) (EDGEDB_TEMPLATE_DB defs)"
  by (simp add: is_database_connectable_def)

subsection \<open>Readiness reload\<close>

lemma parse_readiness_line_file:
  "readiness_state_file (parse_readiness_line f t l) = readiness_state_file t"
  by (simp add: parse_readiness_line_def split: prod.splits option.splits)

text \<open>
  Claim C5. When a readiness state file is configured, after \<^verbatim>\<open>reload_readiness_state\<close> the
  flag \<^verbatim>\<open>accepting_connections\<close> equals \<^verbatim>\<open>is_online()\<close>, that is, it is true iff the readiness
  is not \<^verbatim>\<open>Offline\<close>. This holds for every outcome of reading the file: \<^verbatim>\<open>open\<close> or
  \<^verbatim>\<open>readline\<close> raising (a missing file included), a line that names a state, and a line that
  names none; and for every table of state values.
\<close>

theorem reload_readiness_state_accepting:
  "readiness_state_file t \<noteq> None \<longrightarrow>
     accepting_connections (reload_readiness_state state_of_value t io)
       = is_online (reload_readiness_state state_of_value t io)
     \<and> (accepting_connections (reload_readiness_state state_of_value t io)
          \<longleftrightarrow> readiness (reload_readiness_state state_of_value t io) \<noteq> Offline)"
  by (auto simp: reload_readiness_state_def is_online_def Let_def split: option.splits)

theorem reload_readiness_state_accepting_witness:
  "readiness_state_file (tenant_init 5 False (Some ''state'') True None) \<noteq> None
   \<and> readiness (reload_readiness_state ReadinessState_of_value
         (tenant_init 5 False (Some ''state'') True None)
         (Line (''offline:maintenance'' @ [CHR 0x0A]) None)) = Offline
   \<and> readiness_reason (reload_readiness_state ReadinessState_of_value
         (tenant_init 5 False (Some ''state'') True None)
         (Line (''offline:maintenance'' @ [CHR 0x0A]) None)) = ''maintenance''
   \<and> accepting_connections (reload_readiness_state ReadinessState_of_value
         (tenant_init 5 False (Some ''state'') True None)
         (Line (''offline:maintenance'' @ [CHR 0x0A]) None)) = False
   \<and> is_online (reload_readiness_state ReadinessState_of_value
         (tenant_init 5 False (Some ''state'') True None)
         (Line (''offline:maintenance'' @ [CHR 0x0A]) None)) = False"
proof -
  let ?t = "tenant_init 5 False (Some ''state'') True None"
  let ?io = "Line (''offline:maintenance'' @ [CHR 0x0A]) None"
  let ?r = "reload_readiness_state ReadinessState_of_value ?t ?io"
  have f: "readiness_state_file ?t \<noteq> None"
    by (simp add: tenant_init_def)
  have s: "strip (''offline:maintenance'' @ [CHR 0x0A]) = ''offline:maintenance''"
    by (simp add: strip_def py_isspace_def)
  have p: "str_partition CHR '':'' ''offline:maintenance'' = (''offline'', '':'', ''maintenance'')"
    by (simp add: str_partition_def)
  have r: "readiness ?r = Offline" and rr: "readiness_reason ?r = ''maintenance''"
    using f s p
    by (auto simp: reload_readiness_state_def parse_readiness_line_def
        ReadinessState_of_value_def Let_def split: option.splits)
  from reload_readiness_state_accepting [of ?t ReadinessState_of_value ?io] f r
  have a: "accepting_connections ?r = False" and o: "is_online ?r = False"
    by auto
  from f r rr a o show ?thesis by blast
qed

subsection \<open>JWT checks\<close>

lemma check_sub_cases:
  "check_sub t claims =
     (case jwt_sub_allowlist t of
        None \<Rightarrow> Inr ()
      | Some A \<Rightarrow>
         (case claims ''sub'' of
            Some (JStr s) \<Rightarrow>
              if s = [] then Inl (AuthenticationError
                ''authentication failed: JWT does not contain a valid subject claim'')
              else if s \<in> A then Inr ()
              else Inl (AuthenticationError ''authentication failed: unauthorized subject'')
          | Some (JArray xs) \<Rightarrow>
              if xs = [] then Inl (AuthenticationError
                ''authentication failed: JWT does not contain a valid subject claim'')
              else Inl (TypeError (''unhashable type: '' @ quoted ''list''))
          | Some (JObject xs) \<Rightarrow>
              if xs = [] then Inl (AuthenticationError
                ''authentication failed: JWT does not contain a valid subject claim'')
              else Inl (TypeError (''unhashable type: '' @ quoted ''dict''))
          | v \<Rightarrow>
              if truthy v then
                Inl (AuthenticationError ''authentication failed: unauthorized subject'')
              else Inl (AuthenticationError
                ''authentication failed: JWT does not contain a valid subject claim'')))"
  by (auto simp: check_sub_def Let_def split: option.splits json.splits)

lemma check_sub_ok_iff:
  "check_sub t claims = Inr () \<longleftrightarrow>
     (\<forall>A. jwt_sub_allowlist t = Some A \<longrightarrow>
        (\<exists>s. claims ''sub'' = Some (JStr s) \<and> s \<noteq> [] \<and> s \<in> A))"
  by (auto simp: check_sub_cases split: option.splits json.splits)

lemma check_sub_error:
  "jwt_sub_allowlist t = None \<or> \<not> truthy (claims ''sub'') \<or> hashable (claims ''sub'') \<Longrightarrow>
   check_sub t claims = Inr () \<or> is_AuthenticationError (check_sub t claims)"
  by (auto simp: check_sub_cases split: option.splits json.splits)

lemma check_jti_ok_iff:
  "check_jti t claims = Inr () \<longleftrightarrow>
     (\<forall>R. jwt_revocation_list t = Some R \<longrightarrow>
        truthy (claims ''jti'') \<and> hashable (claims ''jti'')
        \<and> (\<forall>s. claims ''jti'' = Some (JStr s) \<longrightarrow> s \<notin> R))"
  by (cases "claims ''jti''"; cases "the (claims ''jti'')")
     (auto simp: check_jti_def Let_def split: option.splits)

lemma check_jti_error:
  "jwt_revocation_list t = None \<or> \<not> truthy (claims ''jti'') \<or> hashable (claims ''jti'') \<Longrightarrow>
   check_jti t claims = Inr () \<or> is_AuthenticationError (check_jti t claims)"
  by (cases "claims ''jti''"; cases "the (claims ''jti'')")
     (auto simp: check_jti_def Let_def split: option.splits)

lemma check_jwt_ok_iff:
  "check_jwt t claims = Inr () \<longleftrightarrow> check_sub t claims = Inr () \<and> check_jti t claims = Inr ()"
  by (auto simp: check_jwt_def split: sum.splits)

lemma check_jwt_TypeError_iff:
  "(\<exists>m. check_jwt t claims = Inl (TypeError m)) \<longleftrightarrow>
     (jwt_sub_allowlist t \<noteq> None \<and> truthy (claims ''sub'') \<and> \<not> hashable (claims ''sub''))
     \<or> (check_sub t claims = Inr () \<and> jwt_revocation_list t \<noteq> None
          \<and> truthy (claims ''jti'') \<and> \<not> hashable (claims ''jti''))"
proof -
  have s: "(\<exists>m. check_sub t claims = Inl (TypeError m)) \<longleftrightarrow>
      jwt_sub_allowlist t \<noteq> None \<and> truthy (claims ''sub'') \<and> \<not> hashable (claims ''sub'')"
    by (cases "claims ''sub''"; cases "the (claims ''sub'')")
       (auto simp: check_sub_def Let_def split: option.splits)
  have j: "(\<exists>m. check_jti t claims = Inl (TypeError m)) \<longleftrightarrow>
      jwt_revocation_list t \<noteq> None \<and> truthy (claims ''jti'') \<and> \<not> hashable (claims ''jti'')"
    by (cases "claims ''jti''"; cases "the (claims ''jti'')")
       (auto simp: check_jti_def Let_def split: option.splits)
  have "(\<exists>m. check_jwt t claims = Inl (TypeError m)) \<longleftrightarrow>
      (\<exists>m. check_sub t claims = Inl (TypeError m))
      \<or> (check_sub t claims = Inr () \<and> (\<exists>m. check_jti t claims = Inl (TypeError m)))"
    by (cases "check_sub t claims") (auto simp: check_jwt_def)
  then show ?thesis unfolding s j .
qed

text \<open>
  What \<^verbatim>\<open>check_jwt\<close> does for every claims map. It returns without error iff both checks pass:
  where a sub allowlist is configured, \<^verbatim>\<open>sub\<close> is a non-empty string of the allowlist; where a
  revocation list is configured, \<^verbatim>\<open>jti\<close> is present, truthy, hashable and not a string of the
  revocation list. When it raises, the exception is an \<^verbatim>\<open>AuthenticationError\<close> or a
  \<^verbatim>\<open>TypeError\<close>, and it is a \<^verbatim>\<open>TypeError\<close> exactly when the value a configured list is tested
  with is a non-empty JSON array or object: the \<^verbatim>\<open>sub\<close>, or the \<^verbatim>\<open>jti\<close> after the check of the
  \<^verbatim>\<open>sub\<close> has passed.
\<close>

lemma check_jwt_outcomes:
  "(check_jwt t claims = Inr () \<longleftrightarrow>
      (\<forall>A. jwt_sub_allowlist t = Some A \<longrightarrow>
         (\<exists>s. claims ''sub'' = Some (JStr s) \<and> s \<noteq> [] \<and> s \<in> A))
      \<and> (\<forall>R. jwt_revocation_list t = Some R \<longrightarrow>
         truthy (claims ''jti'') \<and> hashable (claims ''jti'')
         \<and> (\<forall>s. claims ''jti'' = Some (JStr s) \<longrightarrow> s \<notin> R)))
   \<and> ((jwt_sub_allowlist t = None \<or> \<not> truthy (claims ''sub'') \<or> hashable (claims ''sub''))
        \<and> (jwt_revocation_list t = None \<or> \<not> truthy (claims ''jti'') \<or> hashable (claims ''jti''))
      \<longrightarrow> check_jwt t claims = Inr () \<or> is_AuthenticationError (check_jwt t claims))
   \<and> (check_jwt t claims = Inr () \<or> is_AuthenticationError (check_jwt t claims)
        \<or> (\<exists>m. check_jwt t claims = Inl (TypeError m)))
   \<and> ((\<exists>m. check_jwt t claims = Inl (TypeError m)) \<longleftrightarrow>
        (jwt_sub_allowlist t \<noteq> None \<and> truthy (claims ''sub'') \<and> \<not> hashable (claims ''sub''))
        \<or> (check_sub t claims = Inr () \<and> jwt_revocation_list t \<noteq> None
             \<and> truthy (claims ''jti'') \<and> \<not> hashable (claims ''jti'')))"
proof -
  have 1: "check_jwt t claims = Inr () \<longleftrightarrow>
      (\<forall>A. jwt_sub_allowlist t = Some A \<longrightarrow>
         (\<exists>s. claims ''sub'' = Some (JStr s) \<and> s \<noteq> [] \<and> s \<in> A))
      \<and> (\<forall>R. jwt_revocation_list t = Some R \<longrightarrow>
         truthy (claims ''jti'') \<and> hashable (claims ''jti'')
         \<and> (\<forall>s. claims ''jti'' = Some (JStr s) \<longrightarrow> s \<notin> R))"
    unfolding check_jwt_ok_iff check_sub_ok_iff check_jti_ok_iff ..
  have 2: "check_jwt t claims = Inr () \<or> is_AuthenticationError (check_jwt t claims)"
    if h: "(jwt_sub_allowlist t = None \<or> \<not> truthy (claims ''sub'') \<or> hashable (claims ''sub''))
        \<and> (jwt_revocation_list t = None \<or> \<not> truthy (claims ''jti'') \<or> hashable (claims ''jti''))"
  proof -
    from h have s: "check_sub t claims = Inr () \<or> is_AuthenticationError (check_sub t claims)"
      by (intro check_sub_error) blast
    from h have j: "check_jti t claims = Inr () \<or> is_AuthenticationError (check_jti t claims)"
      by (intro check_jti_error) blast
    from s j show ?thesis
      by (cases "check_sub t claims") (auto simp: check_jwt_def)
  qed
  note 4 = check_jwt_TypeError_iff [of t claims]
  have 3: "check_jwt t claims = Inr () \<or> is_AuthenticationError (check_jwt t claims)
        \<or> (\<exists>m. check_jwt t claims = Inl (TypeError m))"
  proof (cases "\<exists>m. check_jwt t claims = Inl (TypeError m)")
    case True
    then show ?thesis by blast
  next
    case False
    with 4 have "(jwt_sub_allowlist t = None \<or> \<not> truthy (claims ''sub'') \<or> hashable (claims ''sub''))
        \<and> (jwt_revocation_list t = None \<or> \<not> truthy (claims ''jti'') \<or> hashable (claims ''jti'')
             \<or> check_sub t claims \<noteq> Inr ())"
      by blast
    then consider
      (a) "(jwt_sub_allowlist t = None \<or> \<not> truthy (claims ''sub'') \<or> hashable (claims ''sub''))
        \<and> (jwt_revocation_list t = None \<or> \<not> truthy (claims ''jti'') \<or> hashable (claims ''jti''))"
      | (b) "(jwt_sub_allowlist t = None \<or> \<not> truthy (claims ''sub'') \<or> hashable (claims ''sub''))
        \<and> check_sub t claims \<noteq> Inr ()"
      by blast
    then show ?thesis
    proof cases
      case a
      from 2 [OF a] show ?thesis by blast
    next
      case b
      then have "is_AuthenticationError (check_sub t claims)"
        using check_sub_error [of t claims] by blast
      then have "is_AuthenticationError (check_jwt t claims)"
        by (cases "check_sub t claims") (auto simp: check_jwt_def)
      then show ?thesis by blast
    qed
  qed
  from 1 2 3 4 show ?thesis by blast
qed

text \<open>
  Scenario 6 of the specification, with the allowlist \<open>{alice}\<close> and the revocation list
  \<open>{jti-5}\<close>.
\<close>

lemma check_jwt_scenario:
  "check_jwt jwt_scenario_tenant [''sub'' \<mapsto> JStr ''alice'', ''jti'' \<mapsto> JStr ''jti-1''] = Inr ()
   \<and> is_AuthenticationError
        (check_jwt jwt_scenario_tenant [''sub'' \<mapsto> JStr ''bob'', ''jti'' \<mapsto> JStr ''jti-1''])
   \<and> is_AuthenticationError
        (check_jwt jwt_scenario_tenant [''sub'' \<mapsto> JStr ''alice'', ''jti'' \<mapsto> JStr ''jti-5''])
   \<and> is_AuthenticationError (check_jwt jwt_scenario_tenant [''sub'' \<mapsto> JStr ''alice''])"
proof -
  let ?t = jwt_scenario_tenant
  have a: "jwt_sub_allowlist ?t = Some {''alice''}"
    and r: "jwt_revocation_list ?t = Some {''jti-5''}"
    by (simp_all add: jwt_scenario_tenant_def)
  note o = check_jwt_outcomes [THEN conjunct1] check_jwt_outcomes [THEN conjunct2, THEN conjunct1]
  have 1: "check_jwt ?t [''sub'' \<mapsto> JStr ''alice'', ''jti'' \<mapsto> JStr ''jti-1''] = Inr ()"
    using o [of ?t "[''sub'' \<mapsto> JStr ''alice'', ''jti'' \<mapsto> JStr ''jti-1'']"] a r
    by simp
  have 2: "is_AuthenticationError
        (check_jwt ?t [''sub'' \<mapsto> JStr ''bob'', ''jti'' \<mapsto> JStr ''jti-1''])"
    using o [of ?t "[''sub'' \<mapsto> JStr ''bob'', ''jti'' \<mapsto> JStr ''jti-1'']"] a r
    by auto
  have 3: "is_AuthenticationError
        (check_jwt ?t [''sub'' \<mapsto> JStr ''alice'', ''jti'' \<mapsto> JStr ''jti-5''])"
    using o [of ?t "[''sub'' \<mapsto> JStr ''alice'', ''jti'' \<mapsto> JStr ''jti-5'']"] a r
    by auto
  have 4: "is_AuthenticationError (check_jwt ?t [''sub'' \<mapsto> JStr ''alice''])"
    using o [of ?t "[''sub'' \<mapsto> JStr ''alice'']"] a r
    by auto
  from 1 2 3 4 show ?thesis by blast
qed

text \<open>
  Claim C4 does not hold of the code, by a defect of \<^verbatim>\<open>check_jwt\<close>. The claims are a
  \<^verbatim>\<open>dict[str, Any]\<close>, and the method tests \<^verbatim>\<open>subject not in self._jwt_sub_allowlist\<close> and
  \<^verbatim>\<open>key_id in self._jwt_revocation_list\<close> with no check that the value is a string. The test
  hashes the value, so a non-empty JSON array or object raises \<^verbatim>\<open>TypeError\<close>.

  With the allowlist \<open>{alice}\<close> and the revocation list \<open>{jti-5}\<close>: the \<^verbatim>\<open>sub\<close> \<^verbatim>\<open>["mallory"]\<close> is
  present, non-empty and no member of the allowlist, and the call raises \<^verbatim>\<open>TypeError\<close> where
  the claim says \<^verbatim>\<open>AuthenticationError\<close>. Next to the \<^verbatim>\<open>sub\<close> \<^verbatim>\<open>alice\<close>, the \<^verbatim>\<open>jti\<close> \<^verbatim>\<open>["x"]\<close> is
  present, non-empty and no member of the revocation list, and the call raises \<^verbatim>\<open>TypeError\<close>
  where the claim says it returns without error. The values beside them take the paths the
  claim describes: the empty array and the number 7 as \<^verbatim>\<open>sub\<close> raise \<^verbatim>\<open>AuthenticationError\<close>,
  and with the \<^verbatim>\<open>sub\<close> \<^verbatim>\<open>bob\<close> the \<^verbatim>\<open>jti\<close> is never read. The message of the \<^verbatim>\<open>TypeError\<close> is
  \<^verbatim>\<open>unhashable type: 'list'\<close>.
\<close>

theorem check_jwt_unhashable_sub:
  "jwt_sub_allowlist jwt_scenario_tenant = Some {''alice''}
   \<and> jwt_revocation_list jwt_scenario_tenant = Some {''jti-5''}
   \<and> check_jwt jwt_scenario_tenant
        [''sub'' \<mapsto> JArray [JStr ''mallory''], ''jti'' \<mapsto> JStr ''jti-1'']
       = Inl (TypeError (''unhashable type: '' @ [CHR 0x27] @ ''list'' @ [CHR 0x27]))
   \<and> \<not> is_AuthenticationError (check_jwt jwt_scenario_tenant
        [''sub'' \<mapsto> JArray [JStr ''mallory''], ''jti'' \<mapsto> JStr ''jti-1''])
   \<and> check_jwt jwt_scenario_tenant
        [''sub'' \<mapsto> JStr ''alice'', ''jti'' \<mapsto> JArray [JStr ''x'']]
       = Inl (TypeError (''unhashable type: '' @ [CHR 0x27] @ ''list'' @ [CHR 0x27]))
   \<and> check_jwt jwt_scenario_tenant [''sub'' \<mapsto> JArray [], ''jti'' \<mapsto> JStr ''jti-1'']
       = Inl (AuthenticationError
           ''authentication failed: JWT does not contain a valid subject claim'')
   \<and> check_jwt jwt_scenario_tenant [''sub'' \<mapsto> JNum 7, ''jti'' \<mapsto> JStr ''jti-1'']
       = Inl (AuthenticationError ''authentication failed: unauthorized subject'')
   \<and> check_jwt jwt_scenario_tenant
        [''sub'' \<mapsto> JStr ''bob'', ''jti'' \<mapsto> JArray [JStr ''x'']]
       = Inl (AuthenticationError ''authentication failed: unauthorized subject'')"
  by (simp add: jwt_scenario_tenant_def check_jwt_def check_sub_def check_jti_def quoted_def)

subsection \<open>The reported config blob\<close>

lemma be_decode_be_u32: "n < 2 ^ 32 \<Longrightarrow> be_decode (be_u32 n) = n"
proof -
  assume n: "n < 2 ^ 32"
  have u: "\<And>k. unat (of_nat (k mod 256) :: 8 word) = k mod 256"
    by (simp add: unat_of_nat)
  have d16: "n div 2 ^ 16 = n div 2 ^ 8 div 256"
    by (simp add: div_mult2_eq [symmetric])
  have d24: "n div 2 ^ 24 = n div 2 ^ 16 div 256"
    by (simp add: div_mult2_eq [symmetric])
  have small: "n div 2 ^ 24 mod 256 = n div 2 ^ 24"
    using n by (simp add: less_mult_imp_div_less)
  have "be_decode (be_u32 n) =
      ((n div 2 ^ 24 mod 256 * 256 + n div 2 ^ 16 mod 256) * 256 + n div 2 ^ 8 mod 256) * 256
        + n mod 256"
    unfolding be_decode_def be_u32_def by (simp only: foldl.simps u) simp
  also have "\<dots> = ((n div 2 ^ 16 div 256 * 256 + n div 2 ^ 16 mod 256) * 256
        + n div 2 ^ 8 mod 256) * 256 + n mod 256"
    by (subst small, subst d24, rule refl)
  also have "\<dots> = (n div 2 ^ 8 div 256 * 256 + n div 2 ^ 8 mod 256) * 256 + n mod 256"
    by (simp only: div_mult_mod_eq d16)
  also have "\<dots> = n div 256 * 256 + n mod 256"
    by (simp only: div_mult_mod_eq) simp
  also have "\<dots> = n"
    by (rule div_mult_mod_eq)
  finally show ?thesis .
qed


lemma length_be_u32: "length (be_u32 n) = 4"
  by (simp add: be_u32_def)

lemma load_reported_loop_step:
  "load_reported_loop data ((pv, td) # rest) t = (None, t') \<Longrightarrow>
     \<exists>d. data = Some d \<and> length td < 2 ^ 32 \<and> length d < 2 ^ 32
       \<and> load_reported_loop data rest
            (t\<lparr>report_config_data := (report_config_data t)
                 (pv \<mapsto> be_u32 (length td) @ td @ be_u32 (length d) @ d)\<rparr>) = (None, t')"
  by (cases data; cases "length td < 2 ^ 32"; cases "length (the data) < 2 ^ 32")
     (simp_all add: struct_pack_L_def py_len_def)

lemma load_reported_loop_other:
  "load_reported_loop data tds t = (None, t') \<Longrightarrow> ver \<notin> fst ` set tds \<Longrightarrow>
     report_config_data t' ver = report_config_data t ver"
proof (induction tds arbitrary: t)
  case Nil
  then show ?case by simp
next
  case (Cons a tds)
  obtain pv td where a: "a = (pv, td)" by (cases a)
  from Cons.prems(1) [unfolded a] obtain d where
    rec: "load_reported_loop data tds
            (t\<lparr>report_config_data := (report_config_data t)
                 (pv \<mapsto> be_u32 (length td) @ td @ be_u32 (length d) @ d)\<rparr>) = (None, t')"
    using load_reported_loop_step by blast
  from Cons.prems(2) a have "ver \<notin> fst ` set tds" and "ver \<noteq> pv" by auto
  with Cons.IH [OF rec] show ?case by simp
qed

lemma load_reported_loop_stored:
  "load_reported_loop data tds t = (None, t') \<Longrightarrow> distinct (map fst tds) \<Longrightarrow>
     (ver, typedesc) \<in> set tds \<Longrightarrow>
     \<exists>d. data = Some d \<and> length typedesc < 2 ^ 32 \<and> length d < 2 ^ 32
       \<and> report_config_data t' ver
           = Some (be_u32 (length typedesc) @ typedesc @ be_u32 (length d) @ d)"
proof (induction tds arbitrary: t)
  case Nil
  then show ?case by simp
next
  case (Cons a tds)
  obtain pv td where a: "a = (pv, td)" by (cases a)
  from Cons.prems(1) [unfolded a] obtain d where d: "data = Some d"
    and ltd: "length td < 2 ^ 32" and ld: "length d < 2 ^ 32"
    and rec: "load_reported_loop data tds
            (t\<lparr>report_config_data := (report_config_data t)
                 (pv \<mapsto> be_u32 (length td) @ td @ be_u32 (length d) @ d)\<rparr>) = (None, t')"
    using load_reported_loop_step by blast
  show ?case
  proof (cases "(ver, typedesc) \<in> set tds")
    case True
    from Cons.prems(2) have "distinct (map fst tds)" by simp
    from Cons.IH [OF rec this True] show ?thesis .
  next
    case False
    with Cons.prems(3) a have eq: "ver = pv" "typedesc = td" by auto
    from Cons.prems(2) a eq have "ver \<notin> fst ` set tds" by auto
    from load_reported_loop_other [OF rec this] d ltd ld eq show ?thesis by simp
  qed
qed

lemma load_reported_loop_returns:
  "\<forall>(pv, td) \<in> set tds. length td < 2 ^ 32 \<Longrightarrow> length d < 2 ^ 32 \<Longrightarrow>
     fst (load_reported_loop (Some d) tds t) = None"
  by (induction tds arbitrary: t) (auto simp: struct_pack_L_def py_len_def)

text \<open>
  Claim C7. When \<^verbatim>\<open>_load_reported_config\<close> returns, then for every protocol version with a
  registered type descriptor the blob stored in \<^verbatim>\<open>report_config_data\<close> is the four-byte
  big-endian length of the type descriptor, the type descriptor, the four-byte big-endian
  length of the config data, and the config data. And it does return when the system
  connection is handed over, the query returns bytes, and every length fits 32 bits.
\<close>

theorem load_reported_config_blob:
  "(load_reported_config t env = (None, t') \<and> distinct (map fst (typedescs env))
      \<and> (ver, typedesc) \<in> set (typedescs env)
    \<longrightarrow> (\<exists>data. report_configs env = Inr (Some data)
          \<and> report_config_data t' ver
              = Some (be_u32 (length typedesc) @ typedesc @ be_u32 (length data) @ data)
          \<and> length (be_u32 (length typedesc)) = 4
          \<and> be_decode (be_u32 (length typedesc)) = length typedesc
          \<and> length (be_u32 (length data)) = 4
          \<and> be_decode (be_u32 (length data)) = length data))
   \<and> ((\<exists>c. fst (use_sys_pgcon t (report_sys env)) = Inr c)
        \<and> report_configs env = Inr (Some d)
        \<and> (\<forall>(pv, td) \<in> set (typedescs env). length td < 2 ^ 32) \<and> length d < 2 ^ 32
      \<longrightarrow> fst (load_reported_config t env) = None)"
proof (intro conjI impI; (elim conjE exE)?)
  assume run: "load_reported_config t env = (None, t')"
    and dist: "distinct (map fst (typedescs env))"
    and mem: "(ver, typedesc) \<in> set (typedescs env)"
  from run obtain t2 data where fetched: "report_configs env = Inr data"
    and loop: "load_reported_loop data (typedescs env) t2 = (None, t')"
    by (auto simp: load_reported_config_def Let_def split: prod.splits sum.splits)
  from load_reported_loop_stored [OF loop dist mem] obtain dd where
    dd: "data = Some dd" "length typedesc < 2 ^ 32" "length dd < 2 ^ 32"
      "report_config_data t' ver
         = Some (be_u32 (length typedesc) @ typedesc @ be_u32 (length dd) @ dd)"
    by blast
  with fetched be_decode_be_u32 length_be_u32
  show "\<exists>data. report_configs env = Inr (Some data)
          \<and> report_config_data t' ver
              = Some (be_u32 (length typedesc) @ typedesc @ be_u32 (length data) @ data)
          \<and> length (be_u32 (length typedesc)) = 4
          \<and> be_decode (be_u32 (length typedesc)) = length typedesc
          \<and> length (be_u32 (length data)) = 4
          \<and> be_decode (be_u32 (length data)) = length data"
    by blast
next
  fix c
  assume sys: "fst (use_sys_pgcon t (report_sys env)) = Inr c"
    and fetched: "report_configs env = Inr (Some d)"
    and tds: "\<forall>(pv, td) \<in> set (typedescs env). length td < 2 ^ 32"
    and ld: "length d < 2 ^ 32"
  obtain t1 where t1: "use_sys_pgcon t (report_sys env) = (Inr c, t1)"
    using sys by (cases "use_sys_pgcon t (report_sys env)") simp
  show "fst (load_reported_config t env) = None"
    using load_reported_loop_returns [OF tds ld]
    by (simp add: load_reported_config_def t1 fetched Let_def)
qed

theorem load_reported_config_blob_witness:
  "distinct (map fst ([((1, 0), [0xAA]), ((2, 0), [0xBB, 0xCC])]
      :: (ProtocolVersion \<times> bytes) list))
   \<and> ((2, 0), [0xBB, 0xCC])
         \<in> set ([((1, 0), [0xAA]), ((2, 0), [0xBB, 0xCC])] :: (ProtocolVersion \<times> bytes) list)
   \<and> fst (load_reported_config initing_tenant
        \<lparr>report_sys = quiet, report_configs = Inr (Some [1, 2, 3]), during_fetch = (\<lambda>t. t),
         typedescs = [((1, 0), [0xAA]), ((2, 0), [0xBB, 0xCC])]\<rparr>) = None
   \<and> report_config_data (snd (load_reported_config initing_tenant
        \<lparr>report_sys = quiet, report_configs = Inr (Some [1, 2, 3]), during_fetch = (\<lambda>t. t),
         typedescs = [((1, 0), [0xAA]), ((2, 0), [0xBB, 0xCC])]\<rparr>)) (2, 0)
       = Some [0, 0, 0, 2, 0xBB, 0xCC, 0, 0, 0, 3, 1, 2, 3]"
proof -
  let ?tds = "[((1, 0), [0xAA]), ((2, 0), [0xBB, 0xCC])] :: (ProtocolVersion \<times> bytes) list"
  let ?env = "\<lparr>report_sys = quiet, report_configs = Inr (Some [1, 2, 3]),
    during_fetch = (\<lambda>t. t), typedescs = ?tds\<rparr>"
  let ?r = "load_reported_config initing_tenant ?env"
  have dist: "distinct (map fst ?tds)" by simp
  have mem: "((2, 0), [0xBB, 0xCC]) \<in> set ?tds" by simp
  have sys: "\<exists>c. fst (use_sys_pgcon initing_tenant (report_sys ?env)) = Inr c"
    by (simp add: use_sys_pgcon_def initing_tenant_def tenant_init_def quiet_def fresh_conn_def)
  have small: "\<forall>(pv, td) \<in> set (typedescs ?env). length td < 2 ^ 32" by simp
  have ret: "fst ?r = None"
    using load_reported_config_blob
      [of initing_tenant ?env "snd ?r" "(2, 0)" "[0xBB, 0xCC]" "[1, 2, 3]"] sys small
    by simp
  then have run: "?r = (None, snd ?r)"
    by (cases ?r) simp
  have "report_config_data (snd ?r) (2, 0)
      = Some (be_u32 (length [0xBB, 0xCC :: 8 word]) @ [0xBB, 0xCC]
          @ be_u32 (length [1, 2, 3 :: 8 word]) @ [1, 2, 3])"
    using load_reported_config_blob
      [of initing_tenant ?env "snd ?r" "(2, 0)" "[0xBB, 0xCC]" "[1, 2, 3]"] run dist mem
    by auto
  then have blob: "report_config_data (snd ?r) (2, 0)
      = Some [0, 0, 0, 2, 0xBB, 0xCC, 0, 0, 0, 3, 1, 2, 3]"
    by (simp add: be_u32_def)
  from dist mem ret blob show ?thesis by blast
qed

subsection \<open>The serial check of a backend connect\<close>

lemma pg_connect_Inl:
  "pgcon_connect env (connect_dbname defs get_db_name t dbname) = Inl e \<Longrightarrow>
     pg_connect defs get_db_name t dbname env = (Inl e, None, during_connect env t)"
  by (simp add: pg_connect_def Let_def)

lemma pg_connect_outdated:
  "pgcon_connect env (connect_dbname defs get_db_name t dbname) = Inr rv0 \<Longrightarrow>
   ha_master_serial (during_connect env t) \<noteq> ha_master_serial t \<Longrightarrow>
     pg_connect defs get_db_name t dbname env
       = (Inl (ConnectionError ''connected to outdated Postgres master''),
          Some ((set_stmt_cache (during_connect env t) rv0)\<lparr>terminated := True\<rparr>),
          during_connect env t)"
  by (simp add: pg_connect_def Let_def)

lemma pg_connect_current:
  "pgcon_connect env (connect_dbname defs get_db_name t dbname) = Inr rv0 \<Longrightarrow>
   ha_master_serial (during_connect env t) = ha_master_serial t \<Longrightarrow>
     pg_connect defs get_db_name t dbname env
       = (Inr ((set_stmt_cache (during_connect env t) rv0)\<lparr>tenant_set := True\<rparr>),
          Some ((set_stmt_cache (during_connect env t) rv0)\<lparr>tenant_set := True\<rparr>),
          on_pgcon_made (dbname = EDGEDB_SYSTEM_DB defs) (during_connect env t))"
  by (simp add: pg_connect_def Let_def)


text \<open>
  Claim C1. \<^verbatim>\<open>_pg_connect\<close> reads \<^verbatim>\<open>ha_master_serial\<close> at the call (the tenant \<open>t\<close>) and compares
  it when the connection attempt has completed (the tenant \<open>during_connect env t\<close>). When
  the attempt gave a connection and the two values differ, that connection is terminated,
  gets no tenant back-reference here, and the call raises
  \<^verbatim>\<open>ConnectionError("connected to outdated Postgres master")\<close>. A connection is returned only
  when the two values are equal, and then it is the new connection with the tenant
  back-reference set and not terminated by the call; with equal values and a connection from
  the attempt the call does return it.
\<close>

theorem pg_connect_serial_check:
  "(\<forall>c. fst (pg_connect defs get_db_name t dbname env) = Inr c \<longrightarrow>
       ha_master_serial (during_connect env t) = ha_master_serial t
       \<and> tenant_set c
       \<and> (\<exists>rv0. pgcon_connect env (connect_dbname defs get_db_name t dbname) = Inr rv0
            \<and> c = (set_stmt_cache (during_connect env t) rv0)\<lparr>tenant_set := True\<rparr>))
   \<and> (\<forall>rv0. pgcon_connect env (connect_dbname defs get_db_name t dbname) = Inr rv0
         \<and> ha_master_serial (during_connect env t) \<noteq> ha_master_serial t \<longrightarrow>
       pg_connect defs get_db_name t dbname env
         = (Inl (ConnectionError ''connected to outdated Postgres master''),
            Some ((set_stmt_cache (during_connect env t) rv0)\<lparr>terminated := True\<rparr>),
            during_connect env t))
   \<and> (\<forall>rv0. pgcon_connect env (connect_dbname defs get_db_name t dbname) = Inr rv0
         \<and> ha_master_serial (during_connect env t) = ha_master_serial t \<longrightarrow>
       fst (pg_connect defs get_db_name t dbname env)
         = Inr ((set_stmt_cache (during_connect env t) rv0)\<lparr>tenant_set := True\<rparr>))"
proof (intro conjI allI impI)
  fix c
  assume r: "fst (pg_connect defs get_db_name t dbname env) = Inr c"
  show "ha_master_serial (during_connect env t) = ha_master_serial t"
  proof (cases "pgcon_connect env (connect_dbname defs get_db_name t dbname)")
    case (Inl e)
    from pg_connect_Inl [OF this] r show ?thesis by simp
  next
    case (Inr rv0)
    show ?thesis
    proof (rule ccontr)
      assume "ha_master_serial (during_connect env t) \<noteq> ha_master_serial t"
      from pg_connect_outdated [OF Inr this] r show False by simp
    qed
  qed
  then have same: "ha_master_serial (during_connect env t) = ha_master_serial t" .
  obtain rv0 where c0: "pgcon_connect env (connect_dbname defs get_db_name t dbname) = Inr rv0"
  proof (cases "pgcon_connect env (connect_dbname defs get_db_name t dbname)")
    case (Inl e)
    from pg_connect_Inl [OF this] r show ?thesis by simp
  next
    case (Inr rv0)
    then show ?thesis by (rule that)
  qed
  from pg_connect_current [OF c0 same] r
  have c: "c = (set_stmt_cache (during_connect env t) rv0)\<lparr>tenant_set := True\<rparr>"
    by simp
  then show "tenant_set c" by simp
  from c0 c show "\<exists>rv0. pgcon_connect env (connect_dbname defs get_db_name t dbname) = Inr rv0
            \<and> c = (set_stmt_cache (during_connect env t) rv0)\<lparr>tenant_set := True\<rparr>"
    by blast
next
  fix rv0
  assume "pgcon_connect env (connect_dbname defs get_db_name t dbname) = Inr rv0
         \<and> ha_master_serial (during_connect env t) \<noteq> ha_master_serial t"
  then show "pg_connect defs get_db_name t dbname env
         = (Inl (ConnectionError ''connected to outdated Postgres master''),
            Some ((set_stmt_cache (during_connect env t) rv0)\<lparr>terminated := True\<rparr>),
            during_connect env t)"
    using pg_connect_outdated by blast
next
  fix rv0
  assume "pgcon_connect env (connect_dbname defs get_db_name t dbname) = Inr rv0
         \<and> ha_master_serial (during_connect env t) = ha_master_serial t"
  then show "fst (pg_connect defs get_db_name t dbname env)
         = Inr ((set_stmt_cache (during_connect env t) rv0)\<lparr>tenant_set := True\<rparr>)"
    using pg_connect_current [of env defs get_db_name t dbname rv0] by simp
qed


theorem pg_connect_serial_check_witness:
  "pgcon_connect \<lparr>pgcon_connect = (\<lambda>n. Inr (fresh_conn n)), during_connect = switch_over_during\<rparr>
       (connect_dbname scenario_defines (\<lambda>n. n) initing_tenant ''app'')
     = Inr (fresh_conn ''app'')
   \<and> ha_master_serial (switch_over_during initing_tenant) \<noteq> ha_master_serial initing_tenant
   \<and> pg_connect scenario_defines (\<lambda>n. n) initing_tenant ''app''
        \<lparr>pgcon_connect = (\<lambda>n. Inr (fresh_conn n)), during_connect = switch_over_during\<rparr>
       = (Inl (ConnectionError ''connected to outdated Postgres master''),
          Some ((fresh_conn ''app'')\<lparr>terminated := True\<rparr>),
          switch_over_during initing_tenant)
   \<and> fst (pg_connect scenario_defines (\<lambda>n. n) initing_tenant ''app''
        \<lparr>pgcon_connect = (\<lambda>n. Inr (fresh_conn n)), during_connect = (\<lambda>t. t)\<rparr>)
       = Inr ((fresh_conn ''app'')\<lparr>tenant_set := True\<rparr>)"
proof -
  let ?env = "\<lparr>pgcon_connect = (\<lambda>n. Inr (fresh_conn n)), during_connect = switch_over_during\<rparr>"
  let ?calm = "\<lparr>pgcon_connect = (\<lambda>n. Inr (fresh_conn n)), during_connect = (\<lambda>t. t)\<rparr>"
  have n: "connect_dbname scenario_defines (\<lambda>n. n) initing_tenant ''app'' = ''app''"
    by (simp add: connect_dbname_def initing_tenant_def tenant_init_def)
  have c: "pgcon_connect ?env (connect_dbname scenario_defines (\<lambda>n. n) initing_tenant ''app'')
      = Inr (fresh_conn ''app'')"
    by (simp add: n)
  have c': "pgcon_connect ?calm (connect_dbname scenario_defines (\<lambda>n. n) initing_tenant ''app'')
      = Inr (fresh_conn ''app'')"
    by (simp add: n)
  have d: "during_connect ?env initing_tenant = switch_over_during initing_tenant"
    "during_connect ?calm initing_tenant = initing_tenant"
    by simp_all
  have s: "ha_master_serial (switch_over_during initing_tenant) \<noteq> ha_master_serial initing_tenant"
    by (simp add: switch_over_during_def)
  have k1: "set_stmt_cache (switch_over_during initing_tenant) (fresh_conn ''app'') = fresh_conn ''app''"
    by (simp add: set_stmt_cache_def switch_over_during_def initing_tenant_def tenant_init_def)
  have k2: "set_stmt_cache initing_tenant (fresh_conn ''app'') = fresh_conn ''app''"
    by (simp add: set_stmt_cache_def initing_tenant_def tenant_init_def)
  note thm1 = pg_connect_serial_check
      [of scenario_defines "\<lambda>n. n" initing_tenant "''app''" ?env,
        THEN conjunct2, THEN conjunct1, rule_format, of "fresh_conn ''app''"]
  have 1: "pg_connect scenario_defines (\<lambda>n. n) initing_tenant ''app'' ?env
       = (Inl (ConnectionError ''connected to outdated Postgres master''),
          Some ((fresh_conn ''app'')\<lparr>terminated := True\<rparr>),
          switch_over_during initing_tenant)"
    using thm1 c s unfolding d k1 by (intro thm1 [unfolded d k1] conjI)
  note thm2 = pg_connect_serial_check
      [of scenario_defines "\<lambda>n. n" initing_tenant "''app''" ?calm,
        THEN conjunct2, THEN conjunct2, rule_format, of "fresh_conn ''app''"]
  have 2: "fst (pg_connect scenario_defines (\<lambda>n. n) initing_tenant ''app'' ?calm)
       = Inr ((fresh_conn ''app'')\<lparr>tenant_set := True\<rparr>)"
    using c' by (intro thm2 [unfolded d k2] conjI) simp_all
  from c s 1 2 show ?thesis by blast
qed

subsection \<open>Acquiring a pool connection\<close>

lemma discard_rounds_0: "discard_rounds acq dbname i 0 = []"
  by (simp add: discard_rounds_def)

lemma discard_rounds_Suc:
  "discard_rounds acq dbname i (Suc k)
     = [Acquire dbname, Release dbname (projr (acq i)) True] @ discard_rounds acq dbname (Suc i) k"
proof -
  have "[i..<i + Suc k] = i # [Suc i..<Suc i + k]"
    by (simp del: upt_Suc add: upt_conv_Cons)
  then show ?thesis
    by (simp only: discard_rounds_def) simp
qed

lemma acquire_loop_capacity:
  "max_capacity (snd (acquire_loop acq dbname i n p)) = max_capacity p"
  by (induction n arbitrary: i p) (simp_all add: pool_log_def Let_def split: sum.splits)

lemma acquire_loop_rounds:
  "\<exists>k\<le>n. (\<forall>j<k. \<exists>c. acq (i + j) = Inr c \<and> \<not> healthy c)
     \<and> (if k < n then
           fst (acquire_loop acq dbname i n p) = acq (i + k)
           \<and> (\<forall>c. acq (i + k) = Inr c \<longrightarrow> healthy c)
           \<and> pool_calls (snd (acquire_loop acq dbname i n p))
               = pool_calls p @ discard_rounds acq dbname i k @ [Acquire dbname]
         else
           fst (acquire_loop acq dbname i n p) = Inl (BackendUnavailableError
             ''No healthy backend connection available at the moment, please try again.'')
           \<and> pool_calls (snd (acquire_loop acq dbname i n p))
               = pool_calls p @ discard_rounds acq dbname i n)"
proof (induction n arbitrary: i p)
  case 0
  show ?case by (simp add: discard_rounds_0)
next
  case (Suc n)
  let ?p1 = "pool_log (Acquire dbname) p"
  show ?case
  proof (cases "acq i")
    case (Inl e)
    then have "fst (acquire_loop acq dbname i (Suc n) p) = acq i"
      and "pool_calls (snd (acquire_loop acq dbname i (Suc n) p)) = pool_calls p @ [Acquire dbname]"
      by (simp_all add: pool_log_def)
    with Inl show ?thesis
      by (intro exI [of _ 0]) (simp add: discard_rounds_0)
  next
    case (Inr conn)
    show ?thesis
    proof (cases "healthy conn")
      case True
      with Inr have "fst (acquire_loop acq dbname i (Suc n) p) = acq i"
        and "pool_calls (snd (acquire_loop acq dbname i (Suc n) p)) = pool_calls p @ [Acquire dbname]"
        by (simp_all add: pool_log_def)
      with Inr True show ?thesis
        by (intro exI [of _ 0]) (simp add: discard_rounds_0)
    next
      case False
      let ?p2 = "pool_log (Release dbname conn True) ?p1"
      from Inr False have unf: "acquire_loop acq dbname i (Suc n) p
          = acquire_loop acq dbname (Suc i) n ?p2"
        by simp
      have calls: "pool_calls ?p2 = pool_calls p @ [Acquire dbname, Release dbname (projr (acq i)) True]"
        using Inr by (simp add: pool_log_def)
      from Suc.IH [of "Suc i" ?p2] obtain k where k: "k \<le> n"
        and pre: "\<forall>j<k. \<exists>c. acq (Suc i + j) = Inr c \<and> \<not> healthy c"
        and res: "if k < n then
           fst (acquire_loop acq dbname (Suc i) n ?p2) = acq (Suc i + k)
           \<and> (\<forall>c. acq (Suc i + k) = Inr c \<longrightarrow> healthy c)
           \<and> pool_calls (snd (acquire_loop acq dbname (Suc i) n ?p2))
               = pool_calls ?p2 @ discard_rounds acq dbname (Suc i) k @ [Acquire dbname]
         else
           fst (acquire_loop acq dbname (Suc i) n ?p2) = Inl (BackendUnavailableError
             ''No healthy backend connection available at the moment, please try again.'')
           \<and> pool_calls (snd (acquire_loop acq dbname (Suc i) n ?p2))
               = pool_calls ?p2 @ discard_rounds acq dbname (Suc i) n"
        by blast
      have pre': "\<forall>j<Suc k. \<exists>c. acq (i + j) = Inr c \<and> \<not> healthy c"
      proof (intro allI impI)
        fix j assume "j < Suc k"
        show "\<exists>c. acq (i + j) = Inr c \<and> \<not> healthy c"
        proof (cases j)
          case 0
          with Inr False show ?thesis by simp
        next
          case (Suc j')
          with \<open>j < Suc k\<close> pre show ?thesis by simp
        qed
      qed
      show ?thesis
      proof (intro exI [of _ "Suc k"] conjI)
        show "Suc k \<le> Suc n" using k by simp
        show "\<forall>j<Suc k. \<exists>c. acq (i + j) = Inr c \<and> \<not> healthy c" by (rule pre')
        show "if Suc k < Suc n then
           fst (acquire_loop acq dbname i (Suc n) p) = acq (i + Suc k)
           \<and> (\<forall>c. acq (i + Suc k) = Inr c \<longrightarrow> healthy c)
           \<and> pool_calls (snd (acquire_loop acq dbname i (Suc n) p))
               = pool_calls p @ discard_rounds acq dbname i (Suc k) @ [Acquire dbname]
         else
           fst (acquire_loop acq dbname i (Suc n) p) = Inl (BackendUnavailableError
             ''No healthy backend connection available at the moment, please try again.'')
           \<and> pool_calls (snd (acquire_loop acq dbname i (Suc n) p))
               = pool_calls p @ discard_rounds acq dbname i (Suc n)"
        proof (cases "k < n")
          case True
          with res show ?thesis
            unfolding unf by (simp add: calls discard_rounds_Suc)
        next
          case False
          with k have "k = n" by simp
          with res False show ?thesis
            unfolding unf by (simp add: calls discard_rounds_Suc)
        qed
      qed
    qed
  qed
qed


lemma discard_rounds_acquires:
  "length (filter (\<lambda>c. c = Acquire dbname) (discard_rounds acq dbname i k)) = k"
  by (induction k arbitrary: i) (simp_all add: discard_rounds_0 discard_rounds_Suc)

lemma acquire_pgcon_unavailable:
  "pg_unavailable_msg t = Some m \<Longrightarrow>
     acquire_pgcon t dbname acq
       = (Inl (BackendUnavailableError (''Postgres is not available: '' @ m)), t)"
  by (simp add: acquire_pgcon_def)

lemma acquire_pgcon_available:
  "pg_unavailable_msg t = None \<Longrightarrow>
     fst (acquire_pgcon t dbname acq)
       = fst (acquire_loop acq dbname 0 (nat (max_capacity (pg_pool t))) (pg_pool t))
     \<and> snd (acquire_pgcon t dbname acq)
       = t\<lparr>pg_pool := (pg_pool t)\<lparr>pool_calls :=
            pool_calls (snd (acquire_loop acq dbname 0 (nat (max_capacity (pg_pool t)))
              (pg_pool t)))\<rparr>\<rparr>"
proof -
  assume a: "pg_unavailable_msg t = None"
  let ?l = "acquire_loop acq dbname 0 (nat (max_capacity (pg_pool t))) (pg_pool t)"
  have "snd ?l = (pg_pool t)\<lparr>pool_calls := pool_calls (snd ?l)\<rparr>"
    by (rule pool.equality) (simp_all add: acquire_loop_capacity)
  then show ?thesis
    using a by (cases ?l) (simp add: acquire_pgcon_def)
qed

text \<open>
  Claim C2. When \<^verbatim>\<open>pg_unavailable_msg\<close> is set, \<^verbatim>\<open>acquire_pgcon\<close> raises
  \<^verbatim>\<open>BackendUnavailableError\<close> at once and touches nothing. Otherwise, with \<open>n\<close> the pool's
  \<^verbatim>\<open>max_capacity\<close>, there is a number \<open>k \<le> n\<close> of rounds in which the pool handed out an
  unhealthy connection, each released again with \<^verbatim>\<open>discard=True\<close>. If \<open>k < n\<close> there is one
  more acquire, the last pool call, and the call ends with its outcome: the first healthy
  connection (or the exception the pool raised); that makes \<open>k + 1 \<le> n\<close> acquires. If
  \<open>k = n\<close>, all \<open>n\<close> acquired connections were unhealthy, there are \<open>n\<close> acquires, and the call
  raises \<^verbatim>\<open>BackendUnavailableError\<close>.
\<close>

theorem acquire_pgcon_retries:
  "(pg_unavailable_msg t = Some m \<longrightarrow>
      acquire_pgcon t dbname acq
        = (Inl (BackendUnavailableError (''Postgres is not available: '' @ m)), t))
   \<and> (pg_unavailable_msg t = None \<longrightarrow>
      (\<exists>k\<le>nat (max_capacity (pg_pool t)).
          (\<forall>j<k. \<exists>c. acq j = Inr c \<and> \<not> healthy c)
        \<and> (if k < nat (max_capacity (pg_pool t)) then
             fst (acquire_pgcon t dbname acq) = acq k
             \<and> (\<forall>c. acq k = Inr c \<longrightarrow> healthy c)
             \<and> snd (acquire_pgcon t dbname acq)
                 = t\<lparr>pg_pool := (pg_pool t)\<lparr>pool_calls := pool_calls (pg_pool t)
                      @ discard_rounds acq dbname 0 k @ [Acquire dbname]\<rparr>\<rparr>
             \<and> length (filter (\<lambda>c. c = Acquire dbname)
                   (discard_rounds acq dbname 0 k @ [Acquire dbname])) = Suc k
           else
             fst (acquire_pgcon t dbname acq) = Inl (BackendUnavailableError
               ''No healthy backend connection available at the moment, please try again.'')
             \<and> snd (acquire_pgcon t dbname acq)
                 = t\<lparr>pg_pool := (pg_pool t)\<lparr>pool_calls := pool_calls (pg_pool t)
                      @ discard_rounds acq dbname 0 k\<rparr>\<rparr>
             \<and> length (filter (\<lambda>c. c = Acquire dbname) (discard_rounds acq dbname 0 k)) = k)))"
proof (intro conjI impI)
  assume "pg_unavailable_msg t = Some m"
  then show "acquire_pgcon t dbname acq
        = (Inl (BackendUnavailableError (''Postgres is not available: '' @ m)), t)"
    by (rule acquire_pgcon_unavailable)
next
  assume a: "pg_unavailable_msg t = None"
  let ?n = "nat (max_capacity (pg_pool t))"
  let ?l = "acquire_loop acq dbname 0 ?n (pg_pool t)"
  note av = acquire_pgcon_available [OF a, of dbname acq]
  from acquire_loop_rounds [of ?n acq 0 dbname "pg_pool t"] obtain k where k: "k \<le> ?n"
    and pre: "\<forall>j<k. \<exists>c. acq j = Inr c \<and> \<not> healthy c"
    and res: "if k < ?n then
           fst ?l = acq k \<and> (\<forall>c. acq k = Inr c \<longrightarrow> healthy c)
           \<and> pool_calls (snd ?l)
               = pool_calls (pg_pool t) @ discard_rounds acq dbname 0 k @ [Acquire dbname]
         else
           fst ?l = Inl (BackendUnavailableError
             ''No healthy backend connection available at the moment, please try again.'')
           \<and> pool_calls (snd ?l) = pool_calls (pg_pool t) @ discard_rounds acq dbname 0 ?n"
    by auto
  show "\<exists>k\<le>?n. (\<forall>j<k. \<exists>c. acq j = Inr c \<and> \<not> healthy c)
        \<and> (if k < ?n then
             fst (acquire_pgcon t dbname acq) = acq k
             \<and> (\<forall>c. acq k = Inr c \<longrightarrow> healthy c)
             \<and> snd (acquire_pgcon t dbname acq)
                 = t\<lparr>pg_pool := (pg_pool t)\<lparr>pool_calls := pool_calls (pg_pool t)
                      @ discard_rounds acq dbname 0 k @ [Acquire dbname]\<rparr>\<rparr>
             \<and> length (filter (\<lambda>c. c = Acquire dbname)
                   (discard_rounds acq dbname 0 k @ [Acquire dbname])) = Suc k
           else
             fst (acquire_pgcon t dbname acq) = Inl (BackendUnavailableError
               ''No healthy backend connection available at the moment, please try again.'')
             \<and> snd (acquire_pgcon t dbname acq)
                 = t\<lparr>pg_pool := (pg_pool t)\<lparr>pool_calls := pool_calls (pg_pool t)
                      @ discard_rounds acq dbname 0 k\<rparr>\<rparr>
             \<and> length (filter (\<lambda>c. c = Acquire dbname) (discard_rounds acq dbname 0 k)) = k)"
  proof (intro exI [of _ k] conjI)
    show "k \<le> ?n" by (rule k)
    show "\<forall>j<k. \<exists>c. acq j = Inr c \<and> \<not> healthy c" by (rule pre)
    show "if k < ?n then
             fst (acquire_pgcon t dbname acq) = acq k
             \<and> (\<forall>c. acq k = Inr c \<longrightarrow> healthy c)
             \<and> snd (acquire_pgcon t dbname acq)
                 = t\<lparr>pg_pool := (pg_pool t)\<lparr>pool_calls := pool_calls (pg_pool t)
                      @ discard_rounds acq dbname 0 k @ [Acquire dbname]\<rparr>\<rparr>
             \<and> length (filter (\<lambda>c. c = Acquire dbname)
                   (discard_rounds acq dbname 0 k @ [Acquire dbname])) = Suc k
           else
             fst (acquire_pgcon t dbname acq) = Inl (BackendUnavailableError
               ''No healthy backend connection available at the moment, please try again.'')
             \<and> snd (acquire_pgcon t dbname acq)
                 = t\<lparr>pg_pool := (pg_pool t)\<lparr>pool_calls := pool_calls (pg_pool t)
                      @ discard_rounds acq dbname 0 k\<rparr>\<rparr>
             \<and> length (filter (\<lambda>c. c = Acquire dbname) (discard_rounds acq dbname 0 k)) = k"
    proof (cases "k < ?n")
      case True
      with res av show ?thesis
        by (simp add: discard_rounds_acquires)
    next
      case False
      with k have "k = ?n" by simp
      with res av False show ?thesis
        by (simp add: discard_rounds_acquires)
    qed
  qed
qed


theorem acquire_pgcon_retries_witness:
  "pg_unavailable_msg ((tenant_init 3 False None True None)\<lparr>pg_unavailable_msg := Some ''down''\<rparr>)
     = Some ''down''
   \<and> acquire_pgcon ((tenant_init 3 False None True None)\<lparr>pg_unavailable_msg := Some ''down''\<rparr>)
        ''app'' second_is_healthy
       = (Inl (BackendUnavailableError ''Postgres is not available: down''),
          (tenant_init 3 False None True None)\<lparr>pg_unavailable_msg := Some ''down''\<rparr>)
   \<and> pg_unavailable_msg (tenant_init 3 False None True None) = None
   \<and> fst (acquire_pgcon (tenant_init 3 False None True None) ''app'' second_is_healthy)
       = Inr (pooled_conn ''app'')
   \<and> pool_calls (pg_pool (snd (acquire_pgcon (tenant_init 3 False None True None) ''app''
        second_is_healthy)))
       = [Acquire ''app'', Release ''app'' (sick_conn ''app'') True, Acquire ''app'']
   \<and> fst (acquire_pgcon (tenant_init 3 False None True None) ''app''
        (\<lambda>i. Inr (sick_conn ''app'')))
       = Inl (BackendUnavailableError
           ''No healthy backend connection available at the moment, please try again.'')"
proof -
  let ?t = "tenant_init 3 False None True None"
  let ?d = "?t\<lparr>pg_unavailable_msg := Some ''down''\<rparr>"
  let ?sick = "\<lambda>i::nat. Inr (sick_conn ''app'') :: exn + pgconn"
  have d: "pg_unavailable_msg ?d = Some ''down''" by simp
  have a: "pg_unavailable_msg ?t = None" by (simp add: tenant_init_def)
  have cap: "nat (max_capacity (pg_pool ?t)) = 2" by (simp add: tenant_init_def)
  have old: "pool_calls (pg_pool ?t) = []" by (simp add: tenant_init_def)
  have h: "\<not> healthy (sick_conn ''app'')" "healthy (pooled_conn ''app'')"
    by (simp_all add: sick_conn_def pooled_conn_def fresh_conn_def)
  have s0: "second_is_healthy 0 = Inr (sick_conn ''app'')"
    and s1: "second_is_healthy 1 = Inr (pooled_conn ''app'')"
    by (simp_all add: second_is_healthy_def)
  from acquire_pgcon_retries [of ?d "''down''" "''app''" second_is_healthy] d
  have 1: "acquire_pgcon ?d ''app'' second_is_healthy
       = (Inl (BackendUnavailableError ''Postgres is not available: down''), ?d)"
    by simp
  from acquire_pgcon_retries [of ?t "''x''" "''app''" second_is_healthy] a
  obtain k where k: "k \<le> 2"
    and pre: "\<forall>j<k. \<exists>c. second_is_healthy j = Inr c \<and> \<not> healthy c"
    and res: "if k < 2 then
        fst (acquire_pgcon ?t ''app'' second_is_healthy) = second_is_healthy k
        \<and> (\<forall>c. second_is_healthy k = Inr c \<longrightarrow> healthy c)
        \<and> snd (acquire_pgcon ?t ''app'' second_is_healthy)
            = ?t\<lparr>pg_pool := (pg_pool ?t)\<lparr>pool_calls := pool_calls (pg_pool ?t)
                 @ discard_rounds second_is_healthy ''app'' 0 k @ [Acquire ''app'']\<rparr>\<rparr>
        \<and> length (filter (\<lambda>c. c = Acquire ''app'')
              (discard_rounds second_is_healthy ''app'' 0 k @ [Acquire ''app''])) = Suc k
      else
        fst (acquire_pgcon ?t ''app'' second_is_healthy) = Inl (BackendUnavailableError
          ''No healthy backend connection available at the moment, please try again.'')
        \<and> snd (acquire_pgcon ?t ''app'' second_is_healthy)
            = ?t\<lparr>pg_pool := (pg_pool ?t)\<lparr>pool_calls := pool_calls (pg_pool ?t)
                 @ discard_rounds second_is_healthy ''app'' 0 k\<rparr>\<rparr>
        \<and> length (filter (\<lambda>c. c = Acquire ''app'')
              (discard_rounds second_is_healthy ''app'' 0 k)) = k"
    unfolding cap by blast
  have k1: "k = 1"
  proof -
    from k consider "k = 0" | "k = 1" | "k = 2" by linarith
    then show ?thesis
    proof cases
      case 1
      with res s0 h show ?thesis by simp
    next
      case 2
      then show ?thesis .
    next
      case 3
      with pre have "\<exists>c. second_is_healthy 1 = Inr c \<and> \<not> healthy c" by simp
      with s1 h show ?thesis by simp
    qed
  qed
  have r: "discard_rounds second_is_healthy ''app'' 0 (Suc 0)
      = [Acquire ''app'', Release ''app'' (sick_conn ''app'') True]"
    by (simp add: discard_rounds_def s0)
  from res k1 s1 have 2: "fst (acquire_pgcon ?t ''app'' second_is_healthy) = Inr (pooled_conn ''app'')"
    by simp
  from res k1 have "snd (acquire_pgcon ?t ''app'' second_is_healthy)
      = ?t\<lparr>pg_pool := (pg_pool ?t)\<lparr>pool_calls := pool_calls (pg_pool ?t)
           @ discard_rounds second_is_healthy ''app'' 0 1 @ [Acquire ''app'']\<rparr>\<rparr>"
    by simp
  then have 3: "pool_calls (pg_pool (snd (acquire_pgcon ?t ''app'' second_is_healthy)))
      = [Acquire ''app'', Release ''app'' (sick_conn ''app'') True, Acquire ''app'']"
    by (simp add: r old)
  from acquire_pgcon_retries [of ?t "''x''" "''app''" ?sick] a
  obtain k' where k': "k' \<le> 2"
    and res': "if k' < 2 then
        fst (acquire_pgcon ?t ''app'' ?sick) = ?sick k'
        \<and> (\<forall>c. ?sick k' = Inr c \<longrightarrow> healthy c)
        \<and> snd (acquire_pgcon ?t ''app'' ?sick)
            = ?t\<lparr>pg_pool := (pg_pool ?t)\<lparr>pool_calls := pool_calls (pg_pool ?t)
                 @ discard_rounds ?sick ''app'' 0 k' @ [Acquire ''app'']\<rparr>\<rparr>
        \<and> length (filter (\<lambda>c. c = Acquire ''app'')
              (discard_rounds ?sick ''app'' 0 k' @ [Acquire ''app''])) = Suc k'
      else
        fst (acquire_pgcon ?t ''app'' ?sick) = Inl (BackendUnavailableError
          ''No healthy backend connection available at the moment, please try again.'')
        \<and> snd (acquire_pgcon ?t ''app'' ?sick)
            = ?t\<lparr>pg_pool := (pg_pool ?t)\<lparr>pool_calls := pool_calls (pg_pool ?t)
                 @ discard_rounds ?sick ''app'' 0 k'\<rparr>\<rparr>
        \<and> length (filter (\<lambda>c. c = Acquire ''app'') (discard_rounds ?sick ''app'' 0 k')) = k'"
    unfolding cap by blast
  have "\<not> k' < 2"
  proof
    assume "k' < 2"
    with res' have "\<forall>c. ?sick k' = Inr c \<longrightarrow> healthy c" by simp
    with h show False by simp
  qed
  with res' have 4: "fst (acquire_pgcon ?t ''app'' ?sick) = Inl (BackendUnavailableError
      ''No healthy backend connection available at the moment, please try again.'')"
    by simp
  from d 1 a 2 3 4 show ?thesis by blast
qed

subsection \<open>Early introspection and the database index\<close>

lemma release_pgcon_dbindex: "dbindex (release_pgcon t dbname conn discard) = dbindex t"
  by (simp add: release_pgcon_def Let_def)

lemma early_has_entry:
  "acquire_intro_pgcon t dbname (early_acquire env) (during_acquire env) = (Inr (Some conn), t1) \<Longrightarrow>
   dbindex t1 = Some idx \<Longrightarrow> has_db idx dbname \<Longrightarrow>
     early_introspect_db t dbname env = (None, release_pgcon t1 dbname conn False)"
  by (simp add: early_introspect_db_def)

lemma early_no_entry:
  "acquire_intro_pgcon t dbname (early_acquire env) (during_acquire env) = (Inr (Some conn), t1) \<Longrightarrow>
   dbindex t1 = Some idx \<Longrightarrow> \<not> has_db idx dbname \<Longrightarrow>
   ext_names env = Inr names \<Longrightarrow> dbindex (during_introspect env t1) = Some idx2 \<Longrightarrow>
     early_introspect_db t dbname env =
       (None,
        if has_db idx2 dbname then
          release_pgcon (during_introspect env t1) dbname (conn_after env conn) False
        else
          release_pgcon ((during_introspect env t1)\<lparr>dbindex := Some (register_db idx2 dbname
              None None None None (introspected_extensions names) None)\<rparr>)
            dbname (conn_after env conn) False)"
  by (simp add: early_introspect_db_def Let_def)

lemma acquire_intro_dropped:
  "fst (acquire_pgcon t dbname acq) = Inl (BackendError ERROR_INVALID_CATALOG_NAME) \<Longrightarrow>
   dbindex (during (snd (acquire_pgcon t dbname acq))) = Some idx \<Longrightarrow>
     fst (acquire_intro_pgcon t dbname acq during) = Inr None
     \<and> dbindex (snd (acquire_intro_pgcon t dbname acq during)) = Some (unregister_db idx dbname)"
  by (cases "acquire_pgcon t dbname acq")
     (auto simp: acquire_intro_pgcon_def Let_def has_db_def unregister_db_def)

lemma early_dropped:
  "fst (acquire_intro_pgcon t dbname (early_acquire env) (during_acquire env)) = Inr None \<Longrightarrow>
     early_introspect_db t dbname env
       = (None, snd (acquire_intro_pgcon t dbname (early_acquire env) (during_acquire env)))"
  by (cases "acquire_intro_pgcon t dbname (early_acquire env) (during_acquire env)")
     (simp add: early_introspect_db_def)

lemma acquire_pgcon_first_raises:
  "pg_unavailable_msg t = None \<Longrightarrow> 0 < max_capacity (pg_pool t) \<Longrightarrow> acq 0 = Inl e \<Longrightarrow>
     acquire_pgcon t dbname acq = (Inl e, t\<lparr>pg_pool := pool_log (Acquire dbname) (pg_pool t)\<rparr>)"
proof -
  assume m: "pg_unavailable_msg t = None" and c: "0 < max_capacity (pg_pool t)"
    and a: "acq 0 = Inl e"
  from c obtain n where n: "nat (max_capacity (pg_pool t)) = Suc n"
    by (cases "nat (max_capacity (pg_pool t))") simp_all
  show ?thesis
    by (simp add: acquire_pgcon_def m n a)
qed

lemma acquire_pgcon_first_healthy:
  "pg_unavailable_msg t = None \<Longrightarrow> 0 < max_capacity (pg_pool t) \<Longrightarrow> acq 0 = Inr conn \<Longrightarrow>
   healthy conn \<Longrightarrow>
     acquire_pgcon t dbname acq = (Inr conn, t\<lparr>pg_pool := pool_log (Acquire dbname) (pg_pool t)\<rparr>)"
proof -
  assume m: "pg_unavailable_msg t = None" and c: "0 < max_capacity (pg_pool t)"
    and a: "acq 0 = Inr conn" and h: "healthy conn"
  from c obtain n where n: "nat (max_capacity (pg_pool t)) = Suc n"
    by (cases "nat (max_capacity (pg_pool t))") simp_all
  show ?thesis
    by (simp add: acquire_pgcon_def m n a h)
qed

lemma early_frame_entry:
  assumes "fst (acquire_intro_pgcon t dbname (early_acquire env) (during_acquire env))
      = Inr (Some conn)"
    and "dbindex (snd (acquire_intro_pgcon t dbname (early_acquire env) (during_acquire env)))
      = Some idx"
    and "has_db idx dbname"
  shows "fst (early_introspect_db t dbname env) = None
      \<and> dbindex (snd (early_introspect_db t dbname env)) = Some idx"
proof -
  let ?A = "acquire_intro_pgcon t dbname (early_acquire env) (during_acquire env)"
  from assms(1) have A: "?A = (Inr (Some conn), snd ?A)" by (cases ?A) simp
  from early_has_entry [OF A assms(2) assms(3)] assms(2)
  show ?thesis by (simp add: release_pgcon_dbindex)
qed

lemma early_frame_new:
  assumes "fst (acquire_intro_pgcon t dbname (early_acquire env) (during_acquire env))
      = Inr (Some conn)"
    and "dbindex (snd (acquire_intro_pgcon t dbname (early_acquire env) (during_acquire env)))
      = Some idx"
    and "\<not> has_db idx dbname" and "ext_names env = Inr names"
    and "dbindex (during_introspect env
          (snd (acquire_intro_pgcon t dbname (early_acquire env) (during_acquire env))))
      = Some idx2"
  shows "fst (early_introspect_db t dbname env) = None
      \<and> dbindex (snd (early_introspect_db t dbname env))
          = Some (if has_db idx2 dbname then idx2
                  else idx2(dbname \<mapsto> \<lparr>user_schema_pickle = None, db_config = None,
                    reflection_cache = None, backend_ids = None,
                    extensions = introspected_extensions names,
                    ext_config_settings = None, views = 0\<rparr>))"
proof -
  let ?A = "acquire_intro_pgcon t dbname (early_acquire env) (during_acquire env)"
  from assms(1) have A: "?A = (Inr (Some conn), snd ?A)" by (cases ?A) simp
  have reg: "\<not> has_db idx2 dbname \<Longrightarrow>
      register_db idx2 dbname None None None None (introspected_extensions names) None
        = idx2(dbname \<mapsto> \<lparr>user_schema_pickle = None, db_config = None,
            reflection_cache = None, backend_ids = None,
            extensions = introspected_extensions names,
            ext_config_settings = None, views = 0\<rparr>)"
    by (simp add: register_db_def has_db_def)
  from early_no_entry [OF A assms(2) assms(3) assms(4) assms(5)] assms(5) reg
  show ?thesis by (simp add: release_pgcon_dbindex)
qed

lemma early_frame_dropped:
  assumes "fst (acquire_pgcon t dbname (early_acquire env))
      = Inl (BackendError ERROR_INVALID_CATALOG_NAME)"
    and "dbindex (during_acquire env (snd (acquire_pgcon t dbname (early_acquire env))))
      = Some idx"
  shows "fst (early_introspect_db t dbname env) = None
      \<and> dbindex (snd (early_introspect_db t dbname env)) = Some (idx(dbname := None))"
proof -
  from acquire_intro_dropped
      [where acq = "early_acquire env" and during = "during_acquire env", OF assms]
  have n: "fst (acquire_intro_pgcon t dbname (early_acquire env) (during_acquire env)) = Inr None"
    and u: "dbindex (snd (acquire_intro_pgcon t dbname (early_acquire env) (during_acquire env)))
        = Some (unregister_db idx dbname)"
    by simp_all
  from early_dropped [OF n] u show ?thesis
    by (simp add: unregister_db_def)
qed

lemma acquire_intro_ok:
  "acquire_pgcon t dbname acq = (Inr conn, t1) \<Longrightarrow>
     acquire_intro_pgcon t dbname acq during = (Inr (Some conn), during t1)"
  by (simp add: acquire_intro_pgcon_def)

lemma acquire_intro_acquired:
  "fst (acquire_pgcon t dbname acq) = Inr conn \<Longrightarrow>
     acquire_intro_pgcon t dbname acq during
       = (Inr (Some conn), during (snd (acquire_pgcon t dbname acq)))"
  by (cases "acquire_pgcon t dbname acq") (simp add: acquire_intro_pgcon_def)

lemma acquire_intro_other_error:
  "fst (acquire_pgcon t dbname acq) = Inl e \<Longrightarrow> e \<noteq> BackendError ERROR_INVALID_CATALOG_NAME \<Longrightarrow>
     acquire_intro_pgcon t dbname acq during = (Inl e, during (snd (acquire_pgcon t dbname acq)))"
  by (cases "acquire_pgcon t dbname acq"; cases e)
     (simp_all add: acquire_intro_pgcon_def Let_def)

lemma acquire_intro_dropped_no_index:
  "fst (acquire_pgcon t dbname acq) = Inl (BackendError ERROR_INVALID_CATALOG_NAME) \<Longrightarrow>
   dbindex (during (snd (acquire_pgcon t dbname acq))) = None \<Longrightarrow>
     acquire_intro_pgcon t dbname acq during
       = (Inr None, during (snd (acquire_pgcon t dbname acq)))"
  by (cases "acquire_pgcon t dbname acq") (simp add: acquire_intro_pgcon_def Let_def)

lemma early_other_error:
  assumes "fst (acquire_pgcon t dbname (early_acquire env)) = Inl e"
    and "e \<noteq> BackendError ERROR_INVALID_CATALOG_NAME"
  shows "early_introspect_db t dbname env
      = (Some e, during_acquire env (snd (acquire_pgcon t dbname (early_acquire env))))"
  using acquire_intro_other_error
    [where acq = "early_acquire env" and during = "during_acquire env", OF assms]
  by (simp add: early_introspect_db_def)

lemma early_dropped_no_index:
  assumes "fst (acquire_pgcon t dbname (early_acquire env))
      = Inl (BackendError ERROR_INVALID_CATALOG_NAME)"
    and "dbindex (during_acquire env (snd (acquire_pgcon t dbname (early_acquire env)))) = None"
  shows "early_introspect_db t dbname env
      = (None, during_acquire env (snd (acquire_pgcon t dbname (early_acquire env))))"
  using acquire_intro_dropped_no_index
    [where acq = "early_acquire env" and during = "during_acquire env", OF assms]
  by (simp add: early_introspect_db_def)

lemma early_no_index:
  assumes "fst (acquire_intro_pgcon t dbname (early_acquire env) (during_acquire env))
      = Inr (Some conn)"
    and "dbindex (snd (acquire_intro_pgcon t dbname (early_acquire env) (during_acquire env)))
      = None"
  shows "fst (early_introspect_db t dbname env) = Some AssertionError
      \<and> dbindex (snd (early_introspect_db t dbname env)) = None"
proof -
  let ?A = "acquire_intro_pgcon t dbname (early_acquire env) (during_acquire env)"
  from assms(1) have A: "?A = (Inr (Some conn), snd ?A)" by (cases ?A) simp
  have "early_introspect_db t dbname env
      = (Some AssertionError, release_pgcon (snd ?A) dbname conn False)"
    by (subst early_introspect_db_def, subst A) (simp add: assms(2))
  with assms(2) show ?thesis by (simp add: release_pgcon_dbindex)
qed

lemma early_query_raises:
  assumes "fst (acquire_intro_pgcon t dbname (early_acquire env) (during_acquire env))
      = Inr (Some conn)"
    and "dbindex (snd (acquire_intro_pgcon t dbname (early_acquire env) (during_acquire env)))
      = Some idx"
    and "\<not> has_db idx dbname" and "ext_names env = Inl e"
  shows "fst (early_introspect_db t dbname env) = Some e
      \<and> dbindex (snd (early_introspect_db t dbname env))
          = dbindex (during_introspect env
              (snd (acquire_intro_pgcon t dbname (early_acquire env) (during_acquire env))))"
proof -
  let ?A = "acquire_intro_pgcon t dbname (early_acquire env) (during_acquire env)"
  from assms(1) have A: "?A = (Inr (Some conn), snd ?A)" by (cases ?A) simp
  have "early_introspect_db t dbname env
      = (Some e, release_pgcon (during_introspect env (snd ?A)) dbname (conn_after env conn) False)"
    by (subst early_introspect_db_def, subst A) (simp add: assms(2,3,4) Let_def)
  then show ?thesis by (simp add: release_pgcon_dbindex)
qed

lemma early_index_gone:
  assumes "fst (acquire_intro_pgcon t dbname (early_acquire env) (during_acquire env))
      = Inr (Some conn)"
    and "dbindex (snd (acquire_intro_pgcon t dbname (early_acquire env) (during_acquire env)))
      = Some idx"
    and "\<not> has_db idx dbname" and "ext_names env = Inr names"
    and "dbindex (during_introspect env
          (snd (acquire_intro_pgcon t dbname (early_acquire env) (during_acquire env)))) = None"
  shows "fst (early_introspect_db t dbname env) = Some (OtherException ''AttributeError'')
      \<and> dbindex (snd (early_introspect_db t dbname env)) = None"
proof -
  let ?A = "acquire_intro_pgcon t dbname (early_acquire env) (during_acquire env)"
  from assms(1) have A: "?A = (Inr (Some conn), snd ?A)" by (cases ?A) simp
  have "early_introspect_db t dbname env
      = (Some (OtherException ''AttributeError''),
         release_pgcon (during_introspect env (snd ?A)) dbname (conn_after env conn) False)"
    by (subst early_introspect_db_def, subst A) (simp add: assms(2,3,4,5) Let_def)
  with assms(5) show ?thesis by (simp add: release_pgcon_dbindex)
qed

lemma early_frame_kept:
  assumes "fst (acquire_pgcon t dbname (early_acquire env))
      \<noteq> Inl (BackendError ERROR_INVALID_CATALOG_NAME)"
    and "dbindex (during_acquire env (snd (acquire_pgcon t dbname (early_acquire env))))
      = Some idx"
    and "has_db idx dbname"
  shows "fst (early_introspect_db t dbname env)
        = (case fst (acquire_pgcon t dbname (early_acquire env)) of
             Inl e \<Rightarrow> Some e | Inr conn \<Rightarrow> None)
      \<and> dbindex (snd (early_introspect_db t dbname env)) = Some idx"
proof (cases "fst (acquire_pgcon t dbname (early_acquire env))")
  case (Inl e)
  with assms(1) have "e \<noteq> BackendError ERROR_INVALID_CATALOG_NAME" by simp
  from early_other_error [OF Inl this] assms(2) Inl show ?thesis by simp
next
  case (Inr conn)
  note A = acquire_intro_acquired
    [where acq = "early_acquire env" and during = "during_acquire env", OF Inr]
  have 1: "fst (acquire_intro_pgcon t dbname (early_acquire env) (during_acquire env))
      = Inr (Some conn)"
    by (simp add: A)
  have 2: "dbindex (snd (acquire_intro_pgcon t dbname (early_acquire env) (during_acquire env)))
      = Some idx"
    by (simp add: A assms(2))
  from early_frame_entry [OF 1 2 assms(3)] Inr show ?thesis by simp
qed

text \<open>
  Claim C9, as stated, fails: \<^verbatim>\<open>_early_introspect_db\<close> starts with \<^verbatim>\<open>_acquire_intro_pgcon\<close>, and
  when acquiring the connection raises a \<^verbatim>\<open>BackendError\<close> with the code
  \<^verbatim>\<open>ERROR_INVALID_CATALOG_NAME\<close> that method unregisters the entry of \<^verbatim>\<open>dbname\<close>. Here the index
  has an entry for \<^verbatim>\<open>gone\<close>, no other task touches the tenant, and after the call the entry is
  no longer there.
\<close>

theorem early_introspect_db_dropped_counterexample:
  "dbindex running_tenant = Some [''gone'' \<mapsto> known_entry]
   \<and> has_db [''gone'' \<mapsto> known_entry] ''gone''
   \<and> fst (early_introspect_db running_tenant ''gone'' dropped_env) = None
   \<and> dbindex (snd (early_introspect_db running_tenant ''gone'' dropped_env))
       = Some (unregister_db [''gone'' \<mapsto> known_entry] ''gone'')
   \<and> \<not> has_db (unregister_db [''gone'' \<mapsto> known_entry] ''gone'') ''gone''"
proof -
  have i: "dbindex running_tenant = Some [''gone'' \<mapsto> known_entry]"
    by (simp add: running_tenant_def)
  have m: "pg_unavailable_msg running_tenant = None"
    and c: "0 < max_capacity (pg_pool running_tenant)"
    by (simp_all add: running_tenant_def initing_tenant_def tenant_init_def)
  have e: "early_acquire dropped_env 0 = Inl (BackendError ERROR_INVALID_CATALOG_NAME)"
    by (simp add: dropped_env_def)
  note acq = acquire_pgcon_first_raises
      [where t = running_tenant and acq = "early_acquire dropped_env" and dbname = "''gone''",
        OF m c e]
  have a: "fst (acquire_pgcon running_tenant ''gone'' (early_acquire dropped_env))
      = Inl (BackendError ERROR_INVALID_CATALOG_NAME)"
    by (simp add: acq)
  have d: "dbindex (during_acquire dropped_env
      (snd (acquire_pgcon running_tenant ''gone'' (early_acquire dropped_env))))
      = Some [''gone'' \<mapsto> known_entry]"
  proof -
    have "during_acquire dropped_env = (\<lambda>t. t)" by (simp add: dropped_env_def)
    then show ?thesis by (simp add: acq i)
  qed
  from acquire_intro_dropped
      [where acq = "early_acquire dropped_env" and during = "during_acquire dropped_env", OF a d]
  have n: "fst (acquire_intro_pgcon running_tenant ''gone'' (early_acquire dropped_env)
        (during_acquire dropped_env)) = Inr None"
    and u: "dbindex (snd (acquire_intro_pgcon running_tenant ''gone'' (early_acquire dropped_env)
        (during_acquire dropped_env))) = Some (unregister_db [''gone'' \<mapsto> known_entry] ''gone'')"
    by simp_all
  from early_dropped [OF n] u
  have r: "fst (early_introspect_db running_tenant ''gone'' dropped_env) = None"
    "dbindex (snd (early_introspect_db running_tenant ''gone'' dropped_env))
       = Some (unregister_db [''gone'' \<mapsto> known_entry] ''gone'')"
    by simp_all
  have h: "has_db [''gone'' \<mapsto> known_entry] ''gone''"
    "\<not> has_db (unregister_db [''gone'' \<mapsto> known_entry] ''gone'') ''gone''"
    by (simp_all add: has_db_def unregister_db_def)
  from i h r show ?thesis by blast
qed

text \<open>
  Claim C9, amended. An entry of the index for \<^verbatim>\<open>dbname\<close> is left unchanged by
  \<^verbatim>\<open>_early_introspect_db\<close> on every path but one: when acquiring the connection fails with a
  \<^verbatim>\<open>BackendError\<close> whose code is \<^verbatim>\<open>ERROR_INVALID_CATALOG_NAME\<close>, the call returns normally and the
  entry is unregistered (third conjunct; with no index at all, the fifth). Every other
  exception of \<^verbatim>\<open>acquire_pgcon\<close> is raised again with the tenant as the other tasks left it
  (fourth conjunct). So whenever the acquire does not fail with that code and the index has
  an entry for \<^verbatim>\<open>dbname\<close>, the whole index is the same after the call (last conjunct).

  Once the connection has been acquired (sixth conjunct), the index is left as it is when it
  has an entry for \<^verbatim>\<open>dbname\<close> (first conjunct). When it has none, the extensions are
  introspected and \<^verbatim>\<open>has_db\<close> is checked again: an entry registered meanwhile by another task
  is kept as it is, and only when there is still none a new entry is registered, with the
  extensions and with null schema, config, reflection cache, backend ids and ext config
  settings (second conjunct). When the assertion on the index fails, when the extension
  query raises, or when the index is gone after the query, the call raises and the index is
  not written (seventh to ninth conjunct). The index in each hypothesis is the one the
  method reads at that point, after what the other tasks did during the preceding \<^verbatim>\<open>await\<close>.
\<close>

theorem early_introspect_db_frame:
  "(\<forall>conn idx.
      fst (acquire_intro_pgcon t dbname (early_acquire env) (during_acquire env)) = Inr (Some conn)
      \<and> dbindex (snd (acquire_intro_pgcon t dbname (early_acquire env) (during_acquire env)))
          = Some idx
      \<and> has_db idx dbname \<longrightarrow>
      fst (early_introspect_db t dbname env) = None
      \<and> dbindex (snd (early_introspect_db t dbname env)) = Some idx)
   \<and> (\<forall>conn idx names idx2.
      fst (acquire_intro_pgcon t dbname (early_acquire env) (during_acquire env)) = Inr (Some conn)
      \<and> dbindex (snd (acquire_intro_pgcon t dbname (early_acquire env) (during_acquire env)))
          = Some idx
      \<and> \<not> has_db idx dbname \<and> ext_names env = Inr names
      \<and> dbindex (during_introspect env
            (snd (acquire_intro_pgcon t dbname (early_acquire env) (during_acquire env))))
          = Some idx2 \<longrightarrow>
      fst (early_introspect_db t dbname env) = None
      \<and> dbindex (snd (early_introspect_db t dbname env))
          = Some (if has_db idx2 dbname then idx2
                  else idx2(dbname \<mapsto> \<lparr>user_schema_pickle = None, db_config = None,
                    reflection_cache = None, backend_ids = None,
                    extensions = introspected_extensions names,
                    ext_config_settings = None, views = 0\<rparr>)))
   \<and> (\<forall>idx.
      fst (acquire_pgcon t dbname (early_acquire env))
          = Inl (BackendError ERROR_INVALID_CATALOG_NAME)
      \<and> dbindex (during_acquire env (snd (acquire_pgcon t dbname (early_acquire env))))
          = Some idx \<longrightarrow>
      fst (early_introspect_db t dbname env) = None
      \<and> dbindex (snd (early_introspect_db t dbname env)) = Some (idx(dbname := None)))
   \<and> (\<forall>e.
      fst (acquire_pgcon t dbname (early_acquire env)) = Inl e
      \<and> e \<noteq> BackendError ERROR_INVALID_CATALOG_NAME \<longrightarrow>
      early_introspect_db t dbname env
        = (Some e, during_acquire env (snd (acquire_pgcon t dbname (early_acquire env)))))
   \<and> (fst (acquire_pgcon t dbname (early_acquire env))
          = Inl (BackendError ERROR_INVALID_CATALOG_NAME)
      \<and> dbindex (during_acquire env (snd (acquire_pgcon t dbname (early_acquire env)))) = None
      \<longrightarrow>
      early_introspect_db t dbname env
        = (None, during_acquire env (snd (acquire_pgcon t dbname (early_acquire env)))))
   \<and> (\<forall>conn.
      fst (acquire_pgcon t dbname (early_acquire env)) = Inr conn \<longrightarrow>
      acquire_intro_pgcon t dbname (early_acquire env) (during_acquire env)
        = (Inr (Some conn),
           during_acquire env (snd (acquire_pgcon t dbname (early_acquire env)))))
   \<and> (\<forall>conn.
      fst (acquire_intro_pgcon t dbname (early_acquire env) (during_acquire env)) = Inr (Some conn)
      \<and> dbindex (snd (acquire_intro_pgcon t dbname (early_acquire env) (during_acquire env)))
          = None \<longrightarrow>
      fst (early_introspect_db t dbname env) = Some AssertionError
      \<and> dbindex (snd (early_introspect_db t dbname env)) = None)
   \<and> (\<forall>conn idx e.
      fst (acquire_intro_pgcon t dbname (early_acquire env) (during_acquire env)) = Inr (Some conn)
      \<and> dbindex (snd (acquire_intro_pgcon t dbname (early_acquire env) (during_acquire env)))
          = Some idx
      \<and> \<not> has_db idx dbname \<and> ext_names env = Inl e \<longrightarrow>
      fst (early_introspect_db t dbname env) = Some e
      \<and> dbindex (snd (early_introspect_db t dbname env))
          = dbindex (during_introspect env
              (snd (acquire_intro_pgcon t dbname (early_acquire env) (during_acquire env)))))
   \<and> (\<forall>conn idx names.
      fst (acquire_intro_pgcon t dbname (early_acquire env) (during_acquire env)) = Inr (Some conn)
      \<and> dbindex (snd (acquire_intro_pgcon t dbname (early_acquire env) (during_acquire env)))
          = Some idx
      \<and> \<not> has_db idx dbname \<and> ext_names env = Inr names
      \<and> dbindex (during_introspect env
            (snd (acquire_intro_pgcon t dbname (early_acquire env) (during_acquire env))))
          = None \<longrightarrow>
      fst (early_introspect_db t dbname env) = Some (OtherException ''AttributeError'')
      \<and> dbindex (snd (early_introspect_db t dbname env)) = None)
   \<and> (\<forall>idx.
      fst (acquire_pgcon t dbname (early_acquire env))
          \<noteq> Inl (BackendError ERROR_INVALID_CATALOG_NAME)
      \<and> dbindex (during_acquire env (snd (acquire_pgcon t dbname (early_acquire env))))
          = Some idx
      \<and> has_db idx dbname \<longrightarrow>
      fst (early_introspect_db t dbname env)
        = (case fst (acquire_pgcon t dbname (early_acquire env)) of
             Inl e \<Rightarrow> Some e | Inr conn \<Rightarrow> None)
      \<and> dbindex (snd (early_introspect_db t dbname env)) = Some idx)"
proof -
  have 1: "\<forall>conn idx.
      fst (acquire_intro_pgcon t dbname (early_acquire env) (during_acquire env)) = Inr (Some conn)
      \<and> dbindex (snd (acquire_intro_pgcon t dbname (early_acquire env) (during_acquire env)))
          = Some idx
      \<and> has_db idx dbname \<longrightarrow>
      fst (early_introspect_db t dbname env) = None
      \<and> dbindex (snd (early_introspect_db t dbname env)) = Some idx"
    using early_frame_entry [of t dbname env] by blast
  have 2: "\<forall>conn idx names idx2.
      fst (acquire_intro_pgcon t dbname (early_acquire env) (during_acquire env)) = Inr (Some conn)
      \<and> dbindex (snd (acquire_intro_pgcon t dbname (early_acquire env) (during_acquire env)))
          = Some idx
      \<and> \<not> has_db idx dbname \<and> ext_names env = Inr names
      \<and> dbindex (during_introspect env
            (snd (acquire_intro_pgcon t dbname (early_acquire env) (during_acquire env))))
          = Some idx2 \<longrightarrow>
      fst (early_introspect_db t dbname env) = None
      \<and> dbindex (snd (early_introspect_db t dbname env))
          = Some (if has_db idx2 dbname then idx2
                  else idx2(dbname \<mapsto> \<lparr>user_schema_pickle = None, db_config = None,
                    reflection_cache = None, backend_ids = None,
                    extensions = introspected_extensions names,
                    ext_config_settings = None, views = 0\<rparr>))"
    using early_frame_new [of t dbname env] by blast
  have 3: "\<forall>idx.
      fst (acquire_pgcon t dbname (early_acquire env))
          = Inl (BackendError ERROR_INVALID_CATALOG_NAME)
      \<and> dbindex (during_acquire env (snd (acquire_pgcon t dbname (early_acquire env))))
          = Some idx \<longrightarrow>
      fst (early_introspect_db t dbname env) = None
      \<and> dbindex (snd (early_introspect_db t dbname env)) = Some (idx(dbname := None))"
    using early_frame_dropped [of t dbname env] by blast
  have 4: "\<forall>e.
      fst (acquire_pgcon t dbname (early_acquire env)) = Inl e
      \<and> e \<noteq> BackendError ERROR_INVALID_CATALOG_NAME \<longrightarrow>
      early_introspect_db t dbname env
        = (Some e, during_acquire env (snd (acquire_pgcon t dbname (early_acquire env))))"
    using early_other_error [of t dbname env] by blast
  have 5: "fst (acquire_pgcon t dbname (early_acquire env))
          = Inl (BackendError ERROR_INVALID_CATALOG_NAME)
      \<and> dbindex (during_acquire env (snd (acquire_pgcon t dbname (early_acquire env)))) = None
      \<longrightarrow>
      early_introspect_db t dbname env
        = (None, during_acquire env (snd (acquire_pgcon t dbname (early_acquire env))))"
    using early_dropped_no_index [of t dbname env] by blast
  have 6: "\<forall>conn.
      fst (acquire_pgcon t dbname (early_acquire env)) = Inr conn \<longrightarrow>
      acquire_intro_pgcon t dbname (early_acquire env) (during_acquire env)
        = (Inr (Some conn),
           during_acquire env (snd (acquire_pgcon t dbname (early_acquire env))))"
    using acquire_intro_acquired
      [where t = t and dbname = dbname and acq = "early_acquire env"
        and during = "during_acquire env"]
    by blast
  have 7: "\<forall>conn.
      fst (acquire_intro_pgcon t dbname (early_acquire env) (during_acquire env)) = Inr (Some conn)
      \<and> dbindex (snd (acquire_intro_pgcon t dbname (early_acquire env) (during_acquire env)))
          = None \<longrightarrow>
      fst (early_introspect_db t dbname env) = Some AssertionError
      \<and> dbindex (snd (early_introspect_db t dbname env)) = None"
    using early_no_index [of t dbname env] by blast
  have 8: "\<forall>conn idx e.
      fst (acquire_intro_pgcon t dbname (early_acquire env) (during_acquire env)) = Inr (Some conn)
      \<and> dbindex (snd (acquire_intro_pgcon t dbname (early_acquire env) (during_acquire env)))
          = Some idx
      \<and> \<not> has_db idx dbname \<and> ext_names env = Inl e \<longrightarrow>
      fst (early_introspect_db t dbname env) = Some e
      \<and> dbindex (snd (early_introspect_db t dbname env))
          = dbindex (during_introspect env
              (snd (acquire_intro_pgcon t dbname (early_acquire env) (during_acquire env))))"
    using early_query_raises [of t dbname env] by blast
  have 9: "\<forall>conn idx names.
      fst (acquire_intro_pgcon t dbname (early_acquire env) (during_acquire env)) = Inr (Some conn)
      \<and> dbindex (snd (acquire_intro_pgcon t dbname (early_acquire env) (during_acquire env)))
          = Some idx
      \<and> \<not> has_db idx dbname \<and> ext_names env = Inr names
      \<and> dbindex (during_introspect env
            (snd (acquire_intro_pgcon t dbname (early_acquire env) (during_acquire env))))
          = None \<longrightarrow>
      fst (early_introspect_db t dbname env) = Some (OtherException ''AttributeError'')
      \<and> dbindex (snd (early_introspect_db t dbname env)) = None"
    using early_index_gone [of t dbname env] by blast
  have 10: "\<forall>idx.
      fst (acquire_pgcon t dbname (early_acquire env))
          \<noteq> Inl (BackendError ERROR_INVALID_CATALOG_NAME)
      \<and> dbindex (during_acquire env (snd (acquire_pgcon t dbname (early_acquire env))))
          = Some idx
      \<and> has_db idx dbname \<longrightarrow>
      fst (early_introspect_db t dbname env)
        = (case fst (acquire_pgcon t dbname (early_acquire env)) of
             Inl e \<Rightarrow> Some e | Inr conn \<Rightarrow> None)
      \<and> dbindex (snd (early_introspect_db t dbname env)) = Some idx"
    using early_frame_kept [of t dbname env] by blast
  show ?thesis
    by (intro conjI 1 2 3 4 5 6 7 8 9 10)
qed

theorem early_introspect_db_frame_witness:
  "has_db [''gone'' \<mapsto> known_entry] ''gone''
   \<and> dbindex (snd (early_introspect_db running_tenant ''gone'' healthy_env))
       = Some [''gone'' \<mapsto> known_entry]
   \<and> \<not> has_db [''gone'' \<mapsto> known_entry] ''app''
   \<and> dbindex (snd (early_introspect_db running_tenant ''app'' healthy_env))
       = Some [''gone'' \<mapsto> known_entry,
           ''app'' \<mapsto> \<lparr>user_schema_pickle = None, db_config = None,
              reflection_cache = None, backend_ids = None, extensions = {''graphql''},
              ext_config_settings = None, views = 0\<rparr>]
   \<and> fst (acquire_pgcon running_tenant ''gone'' (early_acquire dropped_env))
       = Inl (BackendError ERROR_INVALID_CATALOG_NAME)
   \<and> dbindex (snd (early_introspect_db running_tenant ''gone'' dropped_env)) = Some Map.empty
   \<and> fst (acquire_pgcon (running_tenant\<lparr>pg_unavailable_msg := Some ''down''\<rparr>) ''gone''
          (early_acquire healthy_env))
       = Inl (BackendUnavailableError ''Postgres is not available: down'')
   \<and> early_introspect_db (running_tenant\<lparr>pg_unavailable_msg := Some ''down''\<rparr>) ''gone''
          healthy_env
       = (Some (BackendUnavailableError ''Postgres is not available: down''),
          running_tenant\<lparr>pg_unavailable_msg := Some ''down''\<rparr>)
   \<and> dbindex (snd (early_introspect_db (running_tenant\<lparr>pg_unavailable_msg := Some ''down''\<rparr>)
          ''gone'' healthy_env))
       = Some [''gone'' \<mapsto> known_entry]"
proof -
  let ?idx = "[''gone'' \<mapsto> known_entry]"
  let ?down = "running_tenant\<lparr>pg_unavailable_msg := Some ''down''\<rparr>"
  let ?unavailable = "BackendUnavailableError ''Postgres is not available: down''"
  have i: "dbindex running_tenant = Some ?idx"
    by (simp add: running_tenant_def)
  have m: "pg_unavailable_msg running_tenant = None"
    and c: "0 < max_capacity (pg_pool running_tenant)"
    by (simp_all add: running_tenant_def initing_tenant_def tenant_init_def)
  have hc: "healthy (pooled_conn ''db'')"
    by (simp add: pooled_conn_def fresh_conn_def)
  have ea: "early_acquire healthy_env 0 = Inr (pooled_conn ''db'')"
    and da: "during_acquire healthy_env = (\<lambda>t. t)"
    and di: "during_introspect healthy_env = (\<lambda>t. t)"
    and en: "ext_names healthy_env = Inr (Some [''graphql''])"
    by (simp_all add: healthy_env_def)
  have g: "has_db ?idx ''gone''" and a: "\<not> has_db ?idx ''app''"
    by (simp_all add: has_db_def)
  have A: "fst (acquire_intro_pgcon running_tenant db (early_acquire healthy_env)
        (during_acquire healthy_env)) = Inr (Some (pooled_conn ''db''))"
    and I: "dbindex (snd (acquire_intro_pgcon running_tenant db (early_acquire healthy_env)
        (during_acquire healthy_env))) = Some ?idx" for db
    using acquire_intro_ok
      [where during = "during_acquire healthy_env",
        OF acquire_pgcon_first_healthy
          [where t = running_tenant and acq = "early_acquire healthy_env" and dbname = db,
            OF m c ea hc]]
    by (simp_all add: da i)
  have I2: "dbindex (during_introspect healthy_env
        (snd (acquire_intro_pgcon running_tenant db (early_acquire healthy_env)
          (during_acquire healthy_env)))) = Some ?idx" for db
    by (simp add: di I)
  from early_introspect_db_frame [of running_tenant "''gone''" healthy_env, THEN conjunct1]
    A I g
  have 1: "dbindex (snd (early_introspect_db running_tenant ''gone'' healthy_env)) = Some ?idx"
    by blast
  from early_introspect_db_frame
      [of running_tenant "''app''" healthy_env, THEN conjunct2, THEN conjunct1]
    A I a en I2
  have "dbindex (snd (early_introspect_db running_tenant ''app'' healthy_env))
      = Some (if has_db ?idx ''app'' then ?idx
              else ?idx(''app'' \<mapsto> \<lparr>user_schema_pickle = None, db_config = None,
                reflection_cache = None, backend_ids = None,
                extensions = introspected_extensions (Some [''graphql'']),
                ext_config_settings = None, views = 0\<rparr>))"
    by blast
  with a have 2: "dbindex (snd (early_introspect_db running_tenant ''app'' healthy_env))
       = Some [''gone'' \<mapsto> known_entry,
           ''app'' \<mapsto> \<lparr>user_schema_pickle = None, db_config = None,
              reflection_cache = None, backend_ids = None, extensions = {''graphql''},
              ext_config_settings = None, views = 0\<rparr>]"
    by (simp add: introspected_extensions_def)
  have e: "early_acquire dropped_env 0 = Inl (BackendError ERROR_INVALID_CATALOG_NAME)"
    and dd: "during_acquire dropped_env = (\<lambda>t. t)"
    by (simp_all add: dropped_env_def)
  note acq = acquire_pgcon_first_raises
      [where t = running_tenant and acq = "early_acquire dropped_env" and dbname = "''gone''",
        OF m c e]
  have f: "fst (acquire_pgcon running_tenant ''gone'' (early_acquire dropped_env))
      = Inl (BackendError ERROR_INVALID_CATALOG_NAME)"
    by (simp add: acq)
  have d: "dbindex (during_acquire dropped_env
      (snd (acquire_pgcon running_tenant ''gone'' (early_acquire dropped_env)))) = Some ?idx"
    by (simp add: acq dd i)
  from early_introspect_db_frame
      [of running_tenant "''gone''" dropped_env, THEN conjunct2, THEN conjunct2, THEN conjunct1]
    f d
  have "dbindex (snd (early_introspect_db running_tenant ''gone'' dropped_env))
      = Some (?idx(''gone'' := None))"
    by blast
  then have 3: "dbindex (snd (early_introspect_db running_tenant ''gone'' dropped_env))
      = Some Map.empty"
    by simp
  have ua: "acquire_pgcon ?down ''gone'' (early_acquire healthy_env) = (Inl ?unavailable, ?down)"
    by (simp add: acquire_pgcon_def)
  then have uf: "fst (acquire_pgcon ?down ''gone'' (early_acquire healthy_env)) = Inl ?unavailable"
    and us: "during_acquire healthy_env
        (snd (acquire_pgcon ?down ''gone'' (early_acquire healthy_env))) = ?down"
    by (simp_all add: da)
  have ne: "?unavailable \<noteq> BackendError ERROR_INVALID_CATALOG_NAME"
    "Inl ?unavailable \<noteq> (Inl (BackendError ERROR_INVALID_CATALOG_NAME) :: exn + pgconn)"
    by simp_all
  from early_introspect_db_frame
      [of ?down "''gone''" healthy_env, THEN conjunct2, THEN conjunct2, THEN conjunct2,
        THEN conjunct1]
    uf ne(1)
  have "early_introspect_db ?down ''gone'' healthy_env
      = (Some ?unavailable, during_acquire healthy_env
          (snd (acquire_pgcon ?down ''gone'' (early_acquire healthy_env))))"
    by blast
  then have 4: "early_introspect_db ?down ''gone'' healthy_env = (Some ?unavailable, ?down)"
    by (simp only: us)
  have ui: "dbindex (during_acquire healthy_env
        (snd (acquire_pgcon ?down ''gone'' (early_acquire healthy_env)))) = Some ?idx"
    by (simp only: us) (simp add: i)
  have un: "fst (acquire_pgcon ?down ''gone'' (early_acquire healthy_env))
      \<noteq> Inl (BackendError ERROR_INVALID_CATALOG_NAME)"
    by (simp only: uf) simp
  from early_introspect_db_frame
      [of ?down "''gone''" healthy_env, THEN conjunct2, THEN conjunct2, THEN conjunct2,
        THEN conjunct2, THEN conjunct2, THEN conjunct2, THEN conjunct2, THEN conjunct2,
        THEN conjunct2]
    un ui g
  have 5: "dbindex (snd (early_introspect_db ?down ''gone'' healthy_env)) = Some ?idx"
    by blast
  from g 1 a 2 f 3 uf 4 5 show ?thesis by blast
qed

subsection \<open>The reconnect loop\<close>

lemma wait_for_bound:
  "0 \<le> timeout \<Longrightarrow> wait_for_reconnect_evt timeout t set_after during = (fired, d, t2) \<Longrightarrow>
     0 \<le> d \<and> d \<le> timeout \<and> running t2 = running (during t)"
  by (auto simp: wait_for_reconnect_evt_def split: if_splits option.splits)

lemma reconnect_loop_fatal:
  "running t \<Longrightarrow>
   pg_connect defs get_db_name t (EDGEDB_SYSTEM_DB defs) (round_connect r) = (Inl e, rv, t1) \<Longrightarrow>
   \<not> (is_OSError e \<or> (\<exists>c. e = BackendError c \<and>
       (c = ERROR_FEATURE_NOT_SUPPORTED \<or> c = ERROR_CANNOT_CONNECT_NOW
        \<or> c = ERROR_READ_ONLY_SQL_TRANSACTION))) \<Longrightarrow>
     reconnect_loop defs get_db_name t (r # rest) = Some (Inl e, [Attempt (Inl e)], t1)"
  by (cases e) simp_all

lemma reconnect_loop_retry:
  "running t \<Longrightarrow>
   pg_connect defs get_db_name t (EDGEDB_SYSTEM_DB defs) (round_connect r) = (Inl e, rv, t1) \<Longrightarrow>
   is_OSError e \<or> (\<exists>c. e = BackendError c \<and>
       (c = ERROR_FEATURE_NOT_SUPPORTED \<or> c = ERROR_CANNOT_CONNECT_NOW
        \<or> c = ERROR_READ_ONLY_SQL_TRANSACTION)) \<Longrightarrow>
   running t1 \<Longrightarrow>
   wait_for_reconnect_evt (SYSTEM_DB_RECONNECT_INTERVAL defs) t1 (evt_set_after r) (during_wait r)
     = (fired, d, t2) \<Longrightarrow>
     reconnect_loop defs get_db_name t (r # rest)
       = map_option (with_actions [Attempt (Inl e), Wait d fired])
           (reconnect_loop defs get_db_name
              (if fired then t2\<lparr>sys_pgcon_reconnect_evt := False\<rparr> else t2) rest)"
  by (cases e) auto

lemma reconnect_loop_starts_with_attempt:
  "running t \<Longrightarrow> reconnect_loop defs get_db_name t (r # rest) = Some x \<Longrightarrow>
     \<exists>a more. actions_of x = Attempt a # more"
proof -
  assume run: "running t" and res: "reconnect_loop defs get_db_name t (r # rest) = Some x"
  obtain out rv t1 where pc:
    "pg_connect defs get_db_name t (EDGEDB_SYSTEM_DB defs) (round_connect r) = (out, rv, t1)"
    by (cases "pg_connect defs get_db_name t (EDGEDB_SYSTEM_DB defs) (round_connect r)")
  show ?thesis
  proof (cases out)
    case (Inr conn)
    with run res pc show ?thesis by (auto simp: actions_of_def)
  next
    case (Inl e)
    obtain fired d t2 where w:
      "wait_for_reconnect_evt (SYSTEM_DB_RECONNECT_INTERVAL defs) t1 (evt_set_after r)
         (during_wait r) = (fired, d, t2)"
      by (cases "wait_for_reconnect_evt (SYSTEM_DB_RECONNECT_INTERVAL defs) t1 (evt_set_after r)
         (during_wait r)")
    from run res pc Inl w show ?thesis
      by (auto simp: actions_of_def with_actions_def split: if_splits prod.splits)
  qed
qed

lemma wait_for_cleared:
  "sys_pgcon_reconnect_evt
     ((if fired then t2\<lparr>sys_pgcon_reconnect_evt := False\<rparr> else t2)) \<Longrightarrow> \<not> fired"
  by (cases fired) simp_all

lemma reconnect_sys_pgcon_raised:
  "reconnect_loop defs get_db_name t rounds = Some (Inl e, acts, t1) \<Longrightarrow>
     reconnect_sys_pgcon defs get_db_name t rounds env
       = Some (Some e, acts, None, t1\<lparr>sys_pgcon_ready_evt := True\<rparr>)"
  by (simp add: reconnect_sys_pgcon_def)

text \<open>
  Claim C6. Take an iteration of the reconnect loop that starts with the tenant running and
  whose connection attempt fails with \<open>e\<close>, and let the interval be non-negative.

  If \<open>e\<close> is an \<^verbatim>\<open>OSError\<close>, or a \<^verbatim>\<open>BackendError\<close> with the code \<^verbatim>\<open>feature_not_supported\<close>,
  \<^verbatim>\<open>cannot_connect_now\<close> or \<^verbatim>\<open>read_only_sql_transaction\<close>, and the tenant is still running, the
  loop waits on the reconnect event for a time \<open>d\<close> with \<open>0 \<le> d \<le> SYSTEM_DB_RECONNECT_INTERVAL\<close>,
  and then goes on as the loop itself does from the state after the wait: what it does is
  this attempt, this wait, and then what the loop does from there. A wait that the event
  ended leaves the event cleared, so the same signal cannot end the next wait. If the
  tenant is still running after the wait, the next thing the loop does is another
  connection attempt.

  If \<open>e\<close> is a \<^verbatim>\<open>BackendError\<close> with any other code, the loop ends at once with \<open>e\<close> raised,
  after this one attempt and no wait, and \<open>e\<close> leaves \<^verbatim>\<open>_reconnect_sys_pgcon\<close> (which sets the
  ready event on its way out).
\<close>

theorem reconnect_loop_retries:
  "running t \<and> 0 \<le> SYSTEM_DB_RECONNECT_INTERVAL defs
   \<and> pg_connect defs get_db_name t (EDGEDB_SYSTEM_DB defs) (round_connect r) = (Inl e, rv, t1)
   \<longrightarrow>
     ((is_OSError e \<or> (\<exists>c. e = BackendError c \<and>
          (c = ERROR_FEATURE_NOT_SUPPORTED \<or> c = ERROR_CANNOT_CONNECT_NOW
           \<or> c = ERROR_READ_ONLY_SQL_TRANSACTION)))
       \<and> running t1
       \<and> wait_for_reconnect_evt (SYSTEM_DB_RECONNECT_INTERVAL defs) t1 (evt_set_after r)
            (during_wait r) = (fired, d, t2)
      \<longrightarrow>
        0 \<le> d \<and> d \<le> SYSTEM_DB_RECONNECT_INTERVAL defs
        \<and> reconnect_loop defs get_db_name t (r # rest)
            = map_option (with_actions [Attempt (Inl e), Wait d fired])
                (reconnect_loop defs get_db_name
                   (if fired then t2\<lparr>sys_pgcon_reconnect_evt := False\<rparr> else t2) rest)
        \<and> (fired \<longrightarrow> \<not> sys_pgcon_reconnect_evt
              (if fired then t2\<lparr>sys_pgcon_reconnect_evt := False\<rparr> else t2))
        \<and> (running (during_wait r t1) \<longrightarrow>
             (\<forall>r' rest' x. rest = r' # rest'
                \<and> reconnect_loop defs get_db_name
                     (if fired then t2\<lparr>sys_pgcon_reconnect_evt := False\<rparr> else t2) rest = Some x
                \<longrightarrow> (\<exists>a more. actions_of x = Attempt a # more))))
     \<and> ((\<exists>c. e = BackendError c \<and> c \<noteq> ERROR_FEATURE_NOT_SUPPORTED
            \<and> c \<noteq> ERROR_CANNOT_CONNECT_NOW \<and> c \<noteq> ERROR_READ_ONLY_SQL_TRANSACTION)
      \<longrightarrow>
        reconnect_loop defs get_db_name t (r # rest) = Some (Inl e, [Attempt (Inl e)], t1)
        \<and> reconnect_sys_pgcon defs get_db_name t (r # rest) env
            = Some (Some e, [Attempt (Inl e)], None, t1\<lparr>sys_pgcon_ready_evt := True\<rparr>))"
proof (intro impI, elim conjE, intro conjI impI; (elim conjE)?)
  let ?t3 = "if fired then t2\<lparr>sys_pgcon_reconnect_evt := False\<rparr> else t2"
  assume run: "running t" and iv: "0 \<le> SYSTEM_DB_RECONNECT_INTERVAL defs"
    and pc: "pg_connect defs get_db_name t (EDGEDB_SYSTEM_DB defs) (round_connect r)
      = (Inl e, rv, t1)"
  {
    assume re: "is_OSError e \<or> (\<exists>c. e = BackendError c \<and>
          (c = ERROR_FEATURE_NOT_SUPPORTED \<or> c = ERROR_CANNOT_CONNECT_NOW
           \<or> c = ERROR_READ_ONLY_SQL_TRANSACTION))"
      and run1: "running t1"
      and w: "wait_for_reconnect_evt (SYSTEM_DB_RECONNECT_INTERVAL defs) t1 (evt_set_after r)
            (during_wait r) = (fired, d, t2)"
    from wait_for_bound [OF iv w]
    have b: "0 \<le> d" "d \<le> SYSTEM_DB_RECONNECT_INTERVAL defs"
      and r2: "running t2 = running (during_wait r t1)"
      by simp_all
    show "0 \<le> d" by (rule b)
    show "d \<le> SYSTEM_DB_RECONNECT_INTERVAL defs" by (rule b)
    show "reconnect_loop defs get_db_name t (r # rest)
        = map_option (with_actions [Attempt (Inl e), Wait d fired])
            (reconnect_loop defs get_db_name ?t3 rest)"
      by (rule reconnect_loop_retry [OF run pc re run1 w])
    show "\<not> sys_pgcon_reconnect_evt ?t3" if "fired"
      using that by simp
    show "\<forall>r' rest' x. rest = r' # rest' \<and> reconnect_loop defs get_db_name ?t3 rest = Some x
        \<longrightarrow> (\<exists>a more. actions_of x = Attempt a # more)"
      if go: "running (during_wait r t1)"
    proof (intro allI impI, elim conjE)
      fix r' rest' x
      assume "rest = r' # rest'" and "reconnect_loop defs get_db_name ?t3 rest = Some x"
      moreover from go r2 have "running ?t3" by simp
      ultimately show "\<exists>a more. actions_of x = Attempt a # more"
        using reconnect_loop_starts_with_attempt by blast
    qed
  }
  {
    assume "\<exists>c. e = BackendError c \<and> c \<noteq> ERROR_FEATURE_NOT_SUPPORTED
            \<and> c \<noteq> ERROR_CANNOT_CONNECT_NOW \<and> c \<noteq> ERROR_READ_ONLY_SQL_TRANSACTION"
    then have "\<not> (is_OSError e \<or> (\<exists>c. e = BackendError c \<and>
          (c = ERROR_FEATURE_NOT_SUPPORTED \<or> c = ERROR_CANNOT_CONNECT_NOW
           \<or> c = ERROR_READ_ONLY_SQL_TRANSACTION)))"
      by auto
    from reconnect_loop_fatal [OF run pc this]
    show l: "reconnect_loop defs get_db_name t (r # rest) = Some (Inl e, [Attempt (Inl e)], t1)" .
    from reconnect_sys_pgcon_raised [OF l]
    show "reconnect_sys_pgcon defs get_db_name t (r # rest) env
        = Some (Some e, [Attempt (Inl e)], None, t1\<lparr>sys_pgcon_ready_evt := True\<rparr>)" .
  }
qed

theorem reconnect_loop_retries_witness:
  "running lost_tenant \<and> 0 \<le> SYSTEM_DB_RECONNECT_INTERVAL scenario_defines
   \<and> pg_connect scenario_defines (\<lambda>n. n) lost_tenant (EDGEDB_SYSTEM_DB scenario_defines)
        (round_connect refused_round)
       = (Inl (OSError ''connection refused''), None, lost_tenant)
   \<and> is_OSError (OSError ''connection refused'')
   \<and> wait_for_reconnect_evt (SYSTEM_DB_RECONNECT_INTERVAL scenario_defines) lost_tenant
        (evt_set_after refused_round) (during_wait refused_round)
       = (True, 1 / 4, lost_tenant\<lparr>sys_pgcon_reconnect_evt := True\<rparr>)
   \<and> map_option actions_of
        (reconnect_loop scenario_defines (\<lambda>n. n) lost_tenant [refused_round, accepted_round])
       = Some [Attempt (Inl (OSError ''connection refused'')), Wait (1 / 4) True,
               Attempt (Inr (pooled_conn ''__edgedbsys__''))]
   \<and> pg_connect scenario_defines (\<lambda>n. n) lost_tenant (EDGEDB_SYSTEM_DB scenario_defines)
        (round_connect rejected_round)
       = (Inl (BackendError (OTHER_CODE ''28P01'')), None, lost_tenant)
   \<and> reconnect_loop scenario_defines (\<lambda>n. n) lost_tenant [rejected_round, accepted_round]
       = Some (Inl (BackendError (OTHER_CODE ''28P01'')),
               [Attempt (Inl (BackendError (OTHER_CODE ''28P01'')))], lost_tenant)"
proof -
  let ?sys = "EDGEDB_SYSTEM_DB scenario_defines"
  let ?t3 = "lost_tenant\<lparr>sys_pgcon_reconnect_evt := False\<rparr>"
  have run: "running lost_tenant" and evt: "\<not> sys_pgcon_reconnect_evt lost_tenant"
    and cr: "has_create_database lost_tenant" and cs: "server_stmt_cache_size lost_tenant = None"
    and ha: "backend_adaptive_ha lost_tenant = None"
    by (simp_all add: lost_tenant_def running_tenant_def initing_tenant_def tenant_init_def)
  have iv: "0 \<le> SYSTEM_DB_RECONNECT_INTERVAL scenario_defines"
    and i1: "SYSTEM_DB_RECONNECT_INTERVAL scenario_defines = 1"
    and sy: "?sys = ''__edgedbsys__''"
    by (simp_all add: scenario_defines_def)
  have n: "connect_dbname scenario_defines (\<lambda>n. n) t ?sys = ''__edgedbsys__''"
    if "has_create_database t" for t
    using that by (simp add: connect_dbname_def sy)
  have p1: "pg_connect scenario_defines (\<lambda>n. n) lost_tenant ?sys (round_connect refused_round)
       = (Inl (OSError ''connection refused''), None, lost_tenant)"
    using pg_connect_Inl [of "round_connect refused_round" scenario_defines "\<lambda>n. n" lost_tenant
        ?sys "OSError ''connection refused''"]
    by (simp add: refused_round_def)
  have p3: "pg_connect scenario_defines (\<lambda>n. n) lost_tenant ?sys (round_connect rejected_round)
       = (Inl (BackendError (OTHER_CODE ''28P01'')), None, lost_tenant)"
    using pg_connect_Inl [of "round_connect rejected_round" scenario_defines "\<lambda>n. n" lost_tenant
        ?sys "BackendError (OTHER_CODE ''28P01'')"]
    by (simp add: rejected_round_def)
  have os: "is_OSError (OSError ''connection refused'')" by simp
  have w: "wait_for_reconnect_evt (SYSTEM_DB_RECONNECT_INTERVAL scenario_defines) lost_tenant
        (evt_set_after refused_round) (during_wait refused_round)
       = (True, 1 / 4, lost_tenant\<lparr>sys_pgcon_reconnect_evt := True\<rparr>)"
    by (simp add: wait_for_reconnect_evt_def evt i1 refused_round_def)
  have t3: "(if True then lost_tenant\<lparr>sys_pgcon_reconnect_evt := True\<rparr>
        \<lparr>sys_pgcon_reconnect_evt := False\<rparr>
      else lost_tenant\<lparr>sys_pgcon_reconnect_evt := True\<rparr>) = ?t3"
    by simp
  have c2: "set_stmt_cache ?t3 (fresh_conn ''__edgedbsys__'') = fresh_conn ''__edgedbsys__''"
    by (simp add: set_stmt_cache_def cs)
  have p2: "pg_connect scenario_defines (\<lambda>n. n) ?t3 ?sys (round_connect accepted_round)
       = (Inr (pooled_conn ''__edgedbsys__''), Some (pooled_conn ''__edgedbsys__''), ?t3)"
    using pg_connect_current [of "round_connect accepted_round" scenario_defines "\<lambda>n. n" ?t3
        ?sys "fresh_conn ''__edgedbsys__''"]
    by (simp add: accepted_round_def n cr c2 pooled_conn_def on_pgcon_made_def ha)
  have l2: "reconnect_loop scenario_defines (\<lambda>n. n) ?t3 [accepted_round]
      = Some (Inr (Some (pooled_conn ''__edgedbsys__'')),
              [Attempt (Inr (pooled_conn ''__edgedbsys__''))], ?t3)"
    by (simp add: run p2)
  from reconnect_loop_retries
      [of lost_tenant scenario_defines "\<lambda>n. n" refused_round "OSError ''connection refused''"
          None lost_tenant True "1 / 4" "lost_tenant\<lparr>sys_pgcon_reconnect_evt := True\<rparr>"
          "[accepted_round]"]
    run iv p1 os w
  have "reconnect_loop scenario_defines (\<lambda>n. n) lost_tenant (refused_round # [accepted_round])
      = map_option (with_actions [Attempt (Inl (OSError ''connection refused'')), Wait (1 / 4) True])
          (reconnect_loop scenario_defines (\<lambda>n. n)
             (if True then lost_tenant\<lparr>sys_pgcon_reconnect_evt := True\<rparr>
                \<lparr>sys_pgcon_reconnect_evt := False\<rparr>
              else lost_tenant\<lparr>sys_pgcon_reconnect_evt := True\<rparr>) [accepted_round])"
    by blast
  then have a: "map_option actions_of
        (reconnect_loop scenario_defines (\<lambda>n. n) lost_tenant [refused_round, accepted_round])
       = Some [Attempt (Inl (OSError ''connection refused'')), Wait (1 / 4) True,
               Attempt (Inr (pooled_conn ''__edgedbsys__''))]"
    unfolding t3 l2 by (simp add: with_actions_def actions_of_def)
  from reconnect_loop_retries
      [of lost_tenant scenario_defines "\<lambda>n. n" rejected_round
          "BackendError (OTHER_CODE ''28P01'')" None lost_tenant]
    run iv p3
  have f: "reconnect_loop scenario_defines (\<lambda>n. n) lost_tenant [rejected_round, accepted_round]
       = Some (Inl (BackendError (OTHER_CODE ''28P01'')),
               [Attempt (Inl (BackendError (OTHER_CODE ''28P01'')))], lost_tenant)"
    by blast
  from run iv p1 os w a p3 f show ?thesis by blast
qed

subsection \<open>Making sure a database is not connected\<close>







lemma poll_finds_sessions:
  "fst (use_sys_pgcon t (poll_sys env)) = Inr c \<Longrightarrow> pg_stat_activity env dbname = Inr (p # ps) \<Longrightarrow>
     fst (pg_ensure_database_not_connected t dbname env) = Some (being_accessed dbname)"
  by (cases "use_sys_pgcon t (poll_sys env)")
     (simp add: pg_ensure_database_not_connected_def Let_def)


















end
